theory Spec2Isabelle
  imports Complex_Main "HOL-Library.Sublist"
begin

section \<open>The chat route \<open>src/app/api/gen-chat/route.ts\<close>\<close>

text \<open>
  A shallow embedding of the streaming chat route: the system-prompt selector
  (\<open>detectSubject\<close>, \<open>getSystemPrompt\<close>), the request handler \<open>POST\<close> with its two
  error boundaries, the step and finish callbacks with their persistence calls, and the
  stream transform. Collaborators that are not part of the route (the session and
  database client, the model SDK, \<open>JSON.parse\<close>, the clock, the UUID source) appear as
  fields of an environment record, so every theorem holds for every behaviour of them.
\<close>

subsection \<open>JavaScript values and strings\<close>

text \<open>
  Values of type \<open>any\<close>. Numbers are integers here: the route only tests numbers for
  truthiness and copies them.
\<close>

datatype jsval =
    Undefined
  | Null
  | Bool bool
  | Num int
  | Str string
  | Arr "jsval list"
  | Obj "(string \<times> jsval) list"

text \<open>The truthiness test of \<open>if (v)\<close>, \<open>v || d\<close> and \<open>v ? a : b\<close>.\<close>

fun truthy :: "jsval \<Rightarrow> bool" where
  "truthy Undefined = False"
| "truthy Null = False"
| "truthy (Bool b) = b"
| "truthy (Num n) = (n \<noteq> 0)"
| "truthy (Str s) = (s \<noteq> [])"
| "truthy (Arr xs) = True"
| "truthy (Obj kvs) = True"

text \<open>\<open>a || b\<close> on values.\<close>

definition js_or :: "jsval \<Rightarrow> jsval \<Rightarrow> jsval" where
  "js_or a b = (if truthy a then a else b)"

text \<open>
  Strings are lists of 8-bit characters: the UTF-8 bytes of the JavaScript string. Every
  keyword the route searches for is ASCII, and no byte of a multi-byte UTF-8 sequence is
  an ASCII byte, so substring search for these keywords agrees with the search on UTF-16
  code units. \<open>toLowerCase\<close> maps the letters A to Z; the characters outside ASCII whose
  lower case is ASCII (U+0130, U+212A) produce \<open>i\<close> followed by a combining mark, or
  \<open>k\<close>, and neither completes one of the keywords.
\<close>

definition lower_char :: "char \<Rightarrow> char" where
  "lower_char c =
     (if (65::nat) \<le> of_char c \<and> of_char c \<le> (90::nat)
      then char_of (of_char c + (32::nat)) else c)"

definition toLowerCase :: "string \<Rightarrow> string" where
  "toLowerCase s = map lower_char s"

text \<open>\<open>s.includes(k)\<close>: \<open>k\<close> occurs in \<open>s\<close> as a contiguous substring.\<close>

definition includes_str :: "string \<Rightarrow> string \<Rightarrow> bool" where
  "includes_str s k = sublist k s"

subsection \<open>Thrown values\<close>

text \<open>
  What a \<open>throw\<close> carries. \<open>NonError\<close> is a thrown value that is not an instance of
  \<open>Error\<close>; \<open>APICallError\<close> is the SDK's error class, with its status code and its
  retryability flag. The optional fields are the ones the route's boundaries read.
\<close>

datatype error_class = PlainError | TypeError | SyntaxError | APICallError | NonError

record js_error =
  e_class :: error_class
  e_message :: string
  e_statusCode :: "nat option"
  e_isRetryable :: bool
  e_url :: string
  e_responseBody :: jsval
  e_messageId :: jsval
  e_finishReason :: jsval
  e_usage :: jsval
  e_code :: jsval
  e_stack :: jsval

definition mk_error :: "error_class \<Rightarrow> string \<Rightarrow> js_error" where
  "mk_error c m =
     \<lparr> e_class = c, e_message = m, e_statusCode = None, e_isRetryable = False,
       e_url = [], e_responseBody = Undefined, e_messageId = Undefined,
       e_finishReason = Undefined, e_usage = Undefined, e_code = Undefined,
       e_stack = Undefined \<rparr>"

text \<open>\<open>err instanceof Error\<close> and \<open>err instanceof TypeError\<close>.\<close>

definition instanceof_Error :: "js_error \<Rightarrow> bool" where
  "instanceof_Error e = (e_class e \<noteq> NonError)"

definition instanceof_TypeError :: "js_error \<Rightarrow> bool" where
  "instanceof_TypeError e = (e_class e = TypeError)"

subsection \<open>Messages and the prompt tables\<close>

text \<open>
  A message of the request body. \<open>role\<close> and \<open>content\<close> are untyped in the route
  (\<open>messages: any[]\<close>), so they are \<open>jsval\<close>s; an absent property is \<open>Undefined\<close>.
\<close>

record message =
  m_role :: jsval
  m_content :: jsval
  m_name :: jsval
  m_toolCalls :: jsval
  m_toolCallId :: jsval

datatype Subject = science | math | english | generic

text \<open>
  The eleven prompt texts are imported from \<open>@/app/utils/systemPrompt\<close>, which is not
  among the sources: they are parameters of the model.
\<close>

record prompt_consts =
  SCIENCE_TEACHER_PROMPT :: string
  MATH_TEACHER_PROMPT :: string
  ENGLISH_TEACHER_PROMPT :: string
  GENERIC_TEACHER_PROMPT :: string
  TEACHER_BUDDY_PROMPT :: string
  SCIENCE_TEACHER_PROMPT_HINDI :: string
  MATH_TEACHER_PROMPT_HINDI :: string
  ENGLISH_TEACHER_PROMPT_HINDI :: string
  GENERIC_TEACHER_PROMPT_HINDI :: string
  TEACHING_MODE_PROMPT :: string
  TEACHING_MODE_PROMPT_HINDI :: string

text \<open>
  \<open>prompts[language][subject]\<close>, as the text that \<open>${basePrompt}\<close> puts into the
  template. The table has the two keys \<open>english\<close> and \<open>hindi\<close>. A key that names a
  property every object inherits (\<open>constructor\<close>, \<open>toString\<close>, ...) reads a function or
  the prototype, on which \<open>[subject]\<close> is \<open>undefined\<close>, printed as \<open>undefined\<close>. For
  every other key \<open>prompts[language]\<close> is \<open>undefined\<close> and reading \<open>[subject]\<close> from it
  throws a \<open>TypeError\<close>.
\<close>

fun prompts_row :: "prompt_consts \<Rightarrow> bool \<Rightarrow> Subject \<Rightarrow> string" where
  "prompts_row K True science = SCIENCE_TEACHER_PROMPT K"
| "prompts_row K True math = MATH_TEACHER_PROMPT K"
| "prompts_row K True english = ENGLISH_TEACHER_PROMPT K"
| "prompts_row K True generic = GENERIC_TEACHER_PROMPT K"
| "prompts_row K False science = SCIENCE_TEACHER_PROMPT_HINDI K"
| "prompts_row K False math = MATH_TEACHER_PROMPT_HINDI K"
| "prompts_row K False english = ENGLISH_TEACHER_PROMPT_HINDI K"
| "prompts_row K False generic = GENERIC_TEACHER_PROMPT_HINDI K"

definition inherited_keys :: "string list" where
  "inherited_keys =
     [''constructor'', ''hasOwnProperty'', ''isPrototypeOf'', ''propertyIsEnumerable'',
      ''toLocaleString'', ''toString'', ''valueOf'', ''__proto__'', ''__defineGetter__'',
      ''__defineSetter__'', ''__lookupGetter__'', ''__lookupSetter__'']"

definition prompts :: "prompt_consts \<Rightarrow> string \<Rightarrow> Subject \<Rightarrow> js_error + string" where
  "prompts K language subject =
     (if language = ''english'' then Inr (prompts_row K True subject)
      else if language = ''hindi'' then Inr (prompts_row K False subject)
      else if language \<in> set inherited_keys then Inr ''undefined''
      else Inl (mk_error TypeError ''Cannot read properties of undefined''))"

subsection \<open>\<open>detectSubject\<close>\<close>

text \<open>
  \<open>messages.slice().reverse().find(m => m.role === 'user')\<close>: the last message whose
  role is the string \<open>user\<close>.
\<close>

definition lastUserMessage :: "message list \<Rightarrow> message option" where
  "lastUserMessage messages = find (\<lambda>m. m_role m = Str ''user'') (rev messages)"

text \<open>
  \<open>found?.content.toLowerCase() || ''\<close>. The optional chain stops only when no message
  was found; on a found message \<open>.content.toLowerCase()\<close> is evaluated, and it throws a
  \<open>TypeError\<close> unless the content is a string.
\<close>

definition lastUserText :: "message list \<Rightarrow> js_error + string" where
  "lastUserText messages =
     (case lastUserMessage messages of
        None \<Rightarrow> Inr []
      | Some m \<Rightarrow>
          (case m_content m of
             Str s \<Rightarrow> Inr (toLowerCase s)
           | Undefined \<Rightarrow> Inl (mk_error TypeError ''Cannot read properties of undefined'')
           | Null \<Rightarrow> Inl (mk_error TypeError ''Cannot read properties of null'')
           | _ \<Rightarrow> Inl (mk_error TypeError ''toLowerCase is not a function'')))"

definition subjectOfText :: "string \<Rightarrow> Subject" where
  "subjectOfText t =
     (if includes_str t ''math'' \<or> includes_str t ''calculation'' then math
      else if includes_str t ''science'' \<or> includes_str t ''experiment'' then science
      else if includes_str t ''english'' \<or> includes_str t ''writing'' then english
      else generic)"

definition detectSubject :: "message list \<Rightarrow> js_error + Subject" where
  "detectSubject messages =
     (case lastUserText messages of
        Inl e \<Rightarrow> Inl e
      | Inr t \<Rightarrow> Inr (subjectOfText t))"

subsection \<open>\<open>getSystemPrompt\<close>\<close>

text \<open>The two template literals appended to the subject prompt.\<close>

definition ENGLISH_TOOLS_NOTE :: string where
  "ENGLISH_TOOLS_NOTE =
     ''\<newline>\<newline>You can use various tools to enhance the learning experience:'' @
     ''\<newline>- Create quizzes'' @
     ''\<newline>- Generate educational images'' @
     ''\<newline>- Create concept visualizations'' @
     ''\<newline>- Generate mind maps'' @
     ''\<newline>\<newline>Do not ever mention that you are using the tools to the user. Just start using them.'' @
     ''\<newline>\<newline>Always provide clear explanations and encourage active learning. Give short responses whenever possible.''"

text \<open>The Hindi note, as the UTF-8 bytes of the source text.\<close>

definition HINDI_TOOLS_NOTE :: string where
  "HINDI_TOOLS_NOTE = map char_of
     [10, 10, 224, 164, 134, 224, 164, 170, 32, 224, 164, 184, 224, 165, 128, 224, 164, 150, 224, 164, 168, 224, 165, 135,
      32, 224, 164, 149, 224, 165, 135, 32, 224, 164, 133, 224, 164, 168, 224, 165, 129, 224, 164, 173, 224, 164, 181, 32,
      224, 164, 149, 224, 165, 139, 32, 224, 164, 172, 224, 164, 162, 224, 164, 188, 224, 164, 190, 224, 164, 168, 224, 165,
      135, 32, 224, 164, 149, 224, 165, 135, 32, 224, 164, 178, 224, 164, 191, 224, 164, 143, 32, 224, 164, 181, 224, 164,
      191, 224, 164, 173, 224, 164, 191, 224, 164, 168, 224, 165, 141, 224, 164, 168, 32, 224, 164, 137, 224, 164, 170, 224,
      164, 149, 224, 164, 176, 224, 164, 163, 224, 165, 139, 224, 164, 130, 32, 224, 164, 149, 224, 164, 190, 32, 224, 164,
      137, 224, 164, 170, 224, 164, 175, 224, 165, 139, 224, 164, 151, 32, 224, 164, 149, 224, 164, 176, 32, 224, 164, 184,
      224, 164, 149, 224, 164, 164, 224, 165, 135, 32, 224, 164, 185, 224, 165, 136, 224, 164, 130, 58, 10, 45, 32, 224,
      164, 135, 224, 164, 130, 224, 164, 159, 224, 164, 176, 224, 165, 136, 224, 164, 149, 224, 165, 141, 224, 164, 159, 224,
      164, 191, 224, 164, 181, 32, 224, 164, 151, 224, 164, 163, 224, 164, 191, 224, 164, 164, 32, 224, 164, 184, 224, 164,
      174, 224, 164, 184, 224, 165, 141, 224, 164, 175, 224, 164, 190, 224, 164, 143, 224, 164, 129, 32, 224, 164, 137, 224,
      164, 164, 224, 165, 141, 224, 164, 170, 224, 164, 168, 224, 165, 141, 224, 164, 168, 32, 224, 164, 149, 224, 164, 176,
      224, 165, 135, 224, 164, 130, 10, 45, 32, 224, 164, 149, 224, 165, 141, 224, 164, 181, 224, 164, 191, 224, 164, 156,
      224, 164, 188, 32, 224, 164, 172, 224, 164, 168, 224, 164, 190, 224, 164, 143, 224, 164, 129, 10, 45, 32, 224, 164,
      182, 224, 165, 136, 224, 164, 149, 224, 165, 141, 224, 164, 183, 224, 164, 191, 224, 164, 149, 32, 224, 164, 155, 224,
      164, 181, 224, 164, 191, 224, 164, 175, 224, 164, 190, 224, 164, 129, 32, 224, 164, 137, 224, 164, 164, 224, 165, 141,
      224, 164, 170, 224, 164, 168, 224, 165, 141, 224, 164, 168, 32, 224, 164, 149, 224, 164, 176, 224, 165, 135, 224, 164,
      130, 10, 45, 32, 224, 164, 133, 224, 164, 181, 224, 164, 167, 224, 164, 190, 224, 164, 176, 224, 164, 163, 224, 164,
      190, 32, 224, 164, 181, 224, 164, 191, 224, 164, 156, 224, 164, 188, 224, 165, 129, 224, 164, 133, 224, 164, 178, 224,
      164, 190, 224, 164, 135, 224, 164, 156, 224, 164, 188, 224, 165, 135, 224, 164, 182, 224, 164, 168, 32, 224, 164, 172,
      224, 164, 168, 224, 164, 190, 224, 164, 143, 224, 164, 129, 10, 45, 32, 224, 164, 174, 224, 164, 190, 224, 164, 135,
      224, 164, 130, 224, 164, 161, 32, 224, 164, 174, 224, 165, 136, 224, 164, 170, 32, 224, 164, 137, 224, 164, 164, 224,
      165, 141, 224, 164, 170, 224, 164, 168, 224, 165, 141, 224, 164, 168, 32, 224, 164, 149, 224, 164, 176, 224, 165, 135,
      224, 164, 130, 10, 10, 224, 164, 149, 224, 164, 173, 224, 165, 128, 32, 224, 164, 173, 224, 165, 128, 32, 224, 164,
      137, 224, 164, 170, 224, 164, 175, 224, 165, 139, 224, 164, 151, 224, 164, 149, 224, 164, 176, 224, 165, 141, 224, 164,
      164, 224, 164, 190, 32, 224, 164, 149, 224, 165, 139, 32, 224, 164, 175, 224, 164, 185, 32, 224, 164, 168, 32, 224,
      164, 172, 224, 164, 164, 224, 164, 190, 224, 164, 143, 224, 164, 130, 32, 224, 164, 149, 224, 164, 191, 32, 224, 164,
      134, 224, 164, 170, 32, 224, 164, 137, 224, 164, 170, 224, 164, 149, 224, 164, 176, 224, 164, 163, 32, 224, 164, 149,
      224, 164, 190, 32, 224, 164, 137, 224, 164, 170, 224, 164, 175, 224, 165, 139, 224, 164, 151, 32, 224, 164, 149, 224,
      164, 176, 32, 224, 164, 176, 224, 164, 185, 224, 165, 135, 32, 224, 164, 185, 224, 165, 136, 224, 164, 130, 224, 165,
      164, 32, 224, 164, 172, 224, 164, 184, 32, 224, 164, 137, 224, 164, 168, 224, 164, 149, 224, 164, 190, 32, 224, 164,
      137, 224, 164, 170, 224, 164, 175, 224, 165, 139, 224, 164, 151, 32, 224, 164, 149, 224, 164, 176, 224, 164, 168, 224,
      164, 190, 32, 224, 164, 182, 224, 165, 129, 224, 164, 176, 224, 165, 130, 32, 224, 164, 149, 224, 164, 176, 32, 224,
      164, 166, 224, 165, 135, 224, 164, 130, 224, 165, 164, 10, 10, 224, 164, 185, 224, 164, 174, 224, 165, 135, 224, 164,
      182, 224, 164, 190, 32, 224, 164, 184, 224, 165, 141, 224, 164, 170, 224, 164, 183, 224, 165, 141, 224, 164, 159, 32,
      224, 164, 181, 224, 165, 141, 224, 164, 175, 224, 164, 190, 224, 164, 150, 224, 165, 141, 224, 164, 175, 224, 164, 190,
      32, 224, 164, 170, 224, 165, 141, 224, 164, 176, 224, 164, 166, 224, 164, 190, 224, 164, 168, 32, 224, 164, 149, 224,
      164, 176, 224, 165, 135, 224, 164, 130, 32, 224, 164, 148, 224, 164, 176, 32, 224, 164, 184, 224, 164, 149, 224, 165,
      141, 224, 164, 176, 224, 164, 191, 224, 164, 175, 32, 224, 164, 184, 224, 165, 128, 224, 164, 150, 224, 164, 168, 224,
      165, 135, 32, 224, 164, 149, 224, 165, 139, 32, 224, 164, 170, 224, 165, 141, 224, 164, 176, 224, 165, 139, 224, 164,
      164, 224, 165, 141, 224, 164, 184, 224, 164, 190, 224, 164, 185, 224, 164, 191, 224, 164, 164, 32, 224, 164, 149, 224,
      164, 176, 224, 165, 135, 224, 164, 130, 224, 165, 164, 32, 224, 164, 184, 224, 164, 130, 224, 164, 173, 224, 164, 181,
      32, 224, 164, 185, 224, 165, 139, 32, 224, 164, 164, 224, 165, 139, 32, 224, 164, 155, 224, 165, 139, 224, 164, 159,
      224, 165, 135, 32, 224, 164, 137, 224, 164, 164, 224, 165, 141, 224, 164, 164, 224, 164, 176, 32, 224, 164, 166, 224,
      165, 135, 224, 164, 130, 224, 165, 164 :: nat]"

text \<open>
  The parameters have defaults in the source (\<open>language = 'english'\<close>,
  \<open>teachingMode = false\<close>); the caller of this definition passes them explicitly.
  \<open>userRole\<close> is optional: \<open>None\<close> is \<open>undefined\<close>.
\<close>

definition getSystemPrompt ::
  "prompt_consts \<Rightarrow> message list \<Rightarrow> string option \<Rightarrow> string \<Rightarrow> bool \<Rightarrow> js_error + string" where
  "getSystemPrompt K messages userRole language teachingMode =
     (if userRole = Some ''Teacher'' then Inr (TEACHER_BUDDY_PROMPT K)
      else if teachingMode then
        Inr (if language = ''english'' then TEACHING_MODE_PROMPT K
             else TEACHING_MODE_PROMPT_HINDI K)
      else
        (case detectSubject messages of
           Inl e \<Rightarrow> Inl e
         | Inr subject \<Rightarrow>
             (case prompts K language subject of
                Inl e \<Rightarrow> Inl e
              | Inr basePrompt \<Rightarrow>
                  Inr (if language = ''english'' then basePrompt @ ENGLISH_TOOLS_NOTE
                       else basePrompt @ HINDI_TOOLS_NOTE))))"

subsection \<open>Responses\<close>

datatype resp_body = JsonBody "(string \<times> jsval) list" | StreamBody

record response =
  r_status :: nat
  r_statusText :: string
  r_headers :: "(string \<times> string) list"
  r_body :: resp_body

text \<open>
  \<open>Response.json(obj, { status })\<close>. The constructor throws a \<open>RangeError\<close> (an
  \<open>Error\<close> that is neither a \<open>TypeError\<close> nor an \<open>APICallError\<close>) for a status outside
  200 to 599; the route passes a computed status in its two \<open>APICallError\<close> branches.
\<close>

definition Response_json :: "(string \<times> jsval) list \<Rightarrow> nat \<Rightarrow> js_error + response" where
  "Response_json obj st =
     (if 200 \<le> st \<and> st \<le> 599
      then Inr \<lparr> r_status = st, r_statusText = [],
                 r_headers = [(''content-type'', ''application/json'')],
                 r_body = JsonBody obj \<rparr>
      else Inl (mk_error PlainError ''RangeError: invalid status''))"

text \<open>The JSON field \<open>k\<close> of a response (\<open>None\<close> for a stream or an absent field).\<close>

definition json_field :: "response \<Rightarrow> string \<Rightarrow> jsval option" where
  "json_field r k = (case r_body r of JsonBody obj \<Rightarrow> map_of obj k | StreamBody \<Rightarrow> None)"

subsection \<open>The error boundary around the stream setup\<close>

definition isStreamFinishError :: "js_error \<Rightarrow> bool" where
  "isStreamFinishError error =
     (instanceof_Error error \<and> includes_str (e_message error) ''STREAM_FINISH_ERROR'')"

definition isTypeError :: "js_error \<Rightarrow> bool" where
  "isTypeError error = instanceof_TypeError error"

definition isAPICallError :: "js_error \<Rightarrow> bool" where
  "isAPICallError error = (e_class error = APICallError)"

text \<open>\<open>s.indexOf(c)\<close> (\<open>-1\<close> when absent) and \<open>s.substring(i)\<close> for \<open>i \<ge> 0\<close>.\<close>

fun indexOf :: "string \<Rightarrow> char \<Rightarrow> int" where
  "indexOf [] c = - 1"
| "indexOf (x # xs) c =
     (if x = c then 0 else (let i = indexOf xs c in if i < 0 then - 1 else i + 1))"

definition substring :: "string \<Rightarrow> int \<Rightarrow> string" where
  "substring s i = drop (nat i) s"

text \<open>
  Property access \<open>v.k\<close>: throws on \<open>undefined\<close> and \<open>null\<close>, reads the field of an
  object, and is \<open>undefined\<close> on the other values (none of the keys read here is a
  property of a primitive or an array).
\<close>

fun get_prop :: "jsval \<Rightarrow> string \<Rightarrow> js_error + jsval" where
  "get_prop (Obj kvs) k = Inr (case map_of kvs k of None \<Rightarrow> Undefined | Some v \<Rightarrow> v)"
| "get_prop Undefined k = Inl (mk_error TypeError ''Cannot read properties of undefined'')"
| "get_prop Null k = Inl (mk_error TypeError ''Cannot read properties of null'')"
| "get_prop v k = Inr Undefined"

definition zero_usage2 :: jsval where
  "zero_usage2 = Obj [(''promptTokens'', Num 0), (''completionTokens'', Num 0)]"

text \<open>The response of the \<open>catch (parseErr)\<close> block.\<close>

definition finishParseFallback :: "js_error \<Rightarrow> js_error + response" where
  "finishParseFallback streamErr =
     Response_json
       [(''error'', Str ''AI Stream Error''),
        (''details'', Str ''The AI stream ended unexpectedly (parsing error)''),
        (''code'', Str ''STREAM_FINISH_ERROR''),
        (''message'', Str (e_message streamErr)),
        (''recoverable'', Bool True)] 500"

text \<open>
  The \<open>try\<close> block under \<open>if (isStreamFinishError(streamErr))\<close>, with its \<open>catch\<close>.
  \<open>JSON_parse\<close> is the built-in, \<open>None\<close> where it throws; \<open>now\<close> is
  \<open>new Date().toISOString()\<close>. The result is \<open>None\<close> when the block returns nothing:
  the message holds no \<open>{\<close>, and control leaves the \<open>if\<close>.
\<close>

definition finishErrorResponse ::
  "(string \<Rightarrow> jsval option) \<Rightarrow> string \<Rightarrow> js_error \<Rightarrow> (js_error + response) option" where
  "finishErrorResponse JSON_parse now streamErr =
     (let errorMessage = e_message streamErr;
          jsonStartIndex = indexOf errorMessage (CHR ''{'')
      in if jsonStartIndex \<ge> 0 then
           (case JSON_parse (substring errorMessage jsonStartIndex) of
              None \<Rightarrow> Some (finishParseFallback streamErr)
            | Some errorData \<Rightarrow>
                (case (get_prop errorData ''usage'', get_prop errorData ''timestamp'',
                       get_prop errorData ''finishReason'') of
                   (Inr usage, Inr timestamp, Inr finishReason) \<Rightarrow>
                     Some (Response_json
                       [(''error'', Str ''AI Stream Error''),
                        (''details'', Str ''The AI stream ended unexpectedly''),
                        (''code'', Str ''STREAM_FINISH_ERROR''),
                        (''usage'', js_or usage zero_usage2),
                        (''timestamp'', js_or timestamp (Str now)),
                        (''finishReason'', js_or finishReason (Str ''error'')),
                        (''recoverable'', Bool True)] 500)
                 | _ \<Rightarrow> Some (finishParseFallback streamErr)))
         else None)"

text \<open>\<open>err.statusCode || 500\<close> and the JSON value of \<open>err.statusCode\<close>.\<close>

definition statusCode_or_500 :: "js_error \<Rightarrow> nat" where
  "statusCode_or_500 err =
     (case e_statusCode err of None \<Rightarrow> 500 | Some c \<Rightarrow> if c = 0 then 500 else c)"

definition statusCode_json :: "js_error \<Rightarrow> jsval" where
  "statusCode_json err = (case e_statusCode err of None \<Rightarrow> Undefined | Some c \<Rightarrow> Num (int c))"

text \<open>
  \<open>streamErr instanceof Error ? streamErr.message : String(streamErr)\<close>; for a thrown
  value that is not an \<open>Error\<close>, \<open>e_message\<close> holds its string form.
\<close>

definition error_text :: "js_error \<Rightarrow> string" where
  "error_text err = e_message err"

text \<open>
  The classification that follows the finish-error block in \<open>catch (streamErr)\<close>.
  \<open>streamError\<close> is the variable the finish callback may have set.
\<close>

definition classifyStreamError :: "js_error option \<Rightarrow> js_error \<Rightarrow> js_error + response" where
  "classifyStreamError streamError streamErr =
     (if isTypeError streamErr then
        Response_json
          [(''error'', Str ''Stream processing error''),
           (''details'', Str (e_message streamErr)),
           (''code'', Str ''STREAM_TYPE_ERROR''),
           (''recoverable'', Bool False)] 500
      else if isAPICallError streamErr then
        Response_json
          [(''error'', Str ''AI API error during streaming''),
           (''details'', Str (e_message streamErr)),
           (''code'', Str ''STREAM_AI_ERROR''),
           (''statusCode'', statusCode_json streamErr),
           (''recoverable'', Bool (e_isRetryable streamErr))] (statusCode_or_500 streamErr)
      else
        (case streamError of
           Some se \<Rightarrow>
             Response_json
               [(''error'', Str ''AI Stream Error''),
                (''details'', Str ''The AI stream reported an error during processing''),
                (''code'', Str ''STREAM_REPORTED_ERROR''),
                (''message'', Obj []),
                (''recoverable'', Bool True)] 500
         | None \<Rightarrow>
             Response_json
               [(''error'', Str ''Stream error''),
                (''details'', Str (error_text streamErr)),
                (''code'', Str ''STREAM_ERROR''),
                (''recoverable'', Bool True),
                (''message'', Str ''Please try your request again.'')] 500))"

text \<open>
  The whole \<open>catch (streamErr)\<close> block: the response it returns (or the error that
  \<open>Response.json\<close> throws out of it), and whether it called \<open>controller.abort()\<close>.
\<close>

definition streamCatch ::
  "(string \<Rightarrow> jsval option) \<Rightarrow> string \<Rightarrow> bool \<Rightarrow> js_error option \<Rightarrow> js_error
     \<Rightarrow> (js_error + response) \<times> bool" where
  "streamCatch JSON_parse now streamFinished streamError streamErr =
     (let aborted = (\<not> streamFinished) in
      (case (if isStreamFinishError streamErr
             then finishErrorResponse JSON_parse now streamErr else None) of
         Some r \<Rightarrow> (r, aborted)
       | None \<Rightarrow> (classifyStreamError streamError streamErr, aborted)))"

subsection \<open>The outer error boundary\<close>

definition zero_usage3 :: jsval where
  "zero_usage3 =
     Obj [(''promptTokens'', Num 0), (''completionTokens'', Num 0), (''totalTokens'', Num 0)]"

definition is_string :: "jsval \<Rightarrow> bool" where
  "is_string v = (case v of Str s \<Rightarrow> True | _ \<Rightarrow> False)"

text \<open>
  The \<open>catch (err)\<close> block of \<open>POST\<close>, after its \<open>controller.abort()\<close>. \<open>development\<close>
  is \<open>process.env.NODE_ENV === 'development'\<close>.
\<close>

definition outerCatch :: "bool \<Rightarrow> js_error \<Rightarrow> js_error + response" where
  "outerCatch development err =
     (if instanceof_TypeError err then
        Response_json
          [(''error'', Str ''Invalid request or parameters''),
           (''details'', Str (e_message err)),
           (''code'', Str ''TYPE_ERROR'')] 400
      else if isAPICallError err then
        Response_json
          [(''error'', Str ''AI API Call Error''),
           (''details'', Str (e_message err)),
           (''code'', Str ''AI_API_ERROR''),
           (''statusCode'', statusCode_json err),
           (''url'', Str (e_url err)),
           (''isRetryable'', Bool (e_isRetryable err)),
           (''responseBody'', e_responseBody err)] (statusCode_or_500 err)
      else if truthy (e_messageId err) \<and> is_string (e_messageId err) then
        Response_json
          [(''error'', Str ''Message processing error''),
           (''messageId'', e_messageId err),
           (''details'', js_or (Str (e_message err)) (Str ''Error processing message'')),
           (''code'', Str ''MESSAGE_ERROR'')] 400
      else if e_finishReason err = Str ''error'' then
        Response_json
          [(''error'', Str ''AI model error''),
           (''details'', Str ''The AI model encountered an error during processing''),
           (''usage'', js_or (e_usage err) zero_usage3),
           (''code'', Str ''MODEL_ERROR''),
           (''finishReason'', e_finishReason err),
           (''recoverable'', Bool True)] 500
      else if e_code err = Str ''ECONNRESET'' then
        Response_json
          [(''error'', Str ''Connection reset''),
           (''details'', Str ''The connection was reset while streaming the response''),
           (''code'', Str ''ECONNRESET''),
           (''recoverable'', Bool True)] 500
      else
        Response_json
          [(''error'', Str ''Server error''),
           (''details'', js_or (Str (e_message err)) (Str ''An unknown error occurred'')),
           (''code'', Str ''SERVER_ERROR''),
           (''stack'', if development then e_stack err else Undefined)] 500)"

subsection \<open>The persistence store\<close>

record thread_row =
  th_id :: string
  th_user_id :: string

record message_row =
  mr_id :: string
  mr_thread_id :: "string option"
  mr_role :: string
  mr_content :: string

record tool_output_row =
  to_message_id :: string
  to_tool_name :: string
  to_tool_call_id :: string
  to_parameters :: jsval
  to_result :: jsval
  to_state :: string

datatype db_op = InsertMessage message_row | InsertToolOutputs "tool_output_row list"

text \<open>
  What an \<open>insert\<close> call can do: store the rows and resolve with \<open>error: null\<close>,
  resolve with an \<open>error\<close> and store nothing, or reject.
\<close>

datatype insert_outcome = Accepted | Refused | Rejected js_error

text \<open>
  Everything a request can change: the three tables, the list of insert calls made
  (\<open>attempts\<close>), the lines written by \<open>console.error\<close> and \<open>console.warn\<close>, the
  number of UUIDs drawn, the two variables \<open>streamFinished\<close> and \<open>streamError\<close> of the
  handler, and the reports sent to the usage accounting.
\<close>

record world =
  chat_threads :: "thread_row list"
  chat_messages :: "message_row list"
  tool_outputs :: "tool_output_row list"
  attempts :: "db_op list"
  console :: "string list"
  uuids_drawn :: nat
  streamFinished :: bool
  streamError :: "js_error option"
  usage_reports :: "(string \<times> string \<times> int \<times> int \<times> string option) list"

definition console_error :: "string \<Rightarrow> world \<Rightarrow> world" where
  "console_error line w = w\<lparr>console := console w @ [line]\<rparr>"

definition store_rows :: "db_op \<Rightarrow> world \<Rightarrow> world" where
  "store_rows op w =
     (case op of
        InsertMessage row \<Rightarrow> w\<lparr>chat_messages := chat_messages w @ [row]\<rparr>
      | InsertToolOutputs rows \<Rightarrow> w\<lparr>tool_outputs := tool_outputs w @ rows\<rparr>)"

text \<open>
  \<open>await supabase.from(table).insert(rows)\<close>. The store's answer is a parameter
  (\<open>policy\<close>); the result is the thrown value, or whether the answer carries an
  \<open>error\<close>.
\<close>

definition db_insert ::
  "(world \<Rightarrow> db_op \<Rightarrow> insert_outcome) \<Rightarrow> db_op \<Rightarrow> world \<Rightarrow> (js_error + bool) \<times> world" where
  "db_insert policy op w =
     (let w1 = w\<lparr>attempts := attempts w @ [op]\<rparr> in
      (case policy w op of
         Accepted \<Rightarrow> (Inr False, store_rows op w1)
       | Refused \<Rightarrow> (Inr True, w1)
       | Rejected e \<Rightarrow> (Inl e, w1)))"

text \<open>
  \<open>.from('chat_threads').select('user_id').eq('id', threadId).single()\<close>: the row when
  exactly one matches, an error otherwise or when the query itself fails.
\<close>

definition select_thread :: "bool \<Rightarrow> world \<Rightarrow> string \<Rightarrow> thread_row option" where
  "select_thread query_fails w threadId =
     (if query_fails then None
      else (case filter (\<lambda>t. th_id t = threadId) (chat_threads w) of
              [t] \<Rightarrow> Some t
            | _ \<Rightarrow> None))"

subsection \<open>\<open>saveToolOutputs\<close>\<close>

record tool_call_entry =
  ce_id :: string
  ce_tool :: string
  ce_parameters :: jsval
  ce_result :: jsval
  ce_state :: "string option"

text \<open>\<open>call.state || 'pending'\<close>.\<close>

definition state_or_pending :: "string option \<Rightarrow> string" where
  "state_or_pending st = (case st of None \<Rightarrow> ''pending'' | Some s \<Rightarrow> if s = [] then ''pending'' else s)"

definition output_row :: "string \<Rightarrow> tool_call_entry \<Rightarrow> tool_output_row" where
  "output_row messageId call =
     \<lparr> to_message_id = messageId, to_tool_name = ce_tool call, to_tool_call_id = ce_id call,
       to_parameters = ce_parameters call, to_result = ce_result call,
       to_state = state_or_pending (ce_state call) \<rparr>"

text \<open>The body of the \<open>try\<close> block: it throws the error the store answered with.\<close>

definition saveToolOutputs_try ::
  "(world \<Rightarrow> db_op \<Rightarrow> insert_outcome) \<Rightarrow> string \<Rightarrow> tool_call_entry list \<Rightarrow> world
     \<Rightarrow> (js_error + unit) \<times> world" where
  "saveToolOutputs_try policy messageId toolCalls w =
     (let outputs = map (output_row messageId) toolCalls in
      (case db_insert policy (InsertToolOutputs outputs) w of
         (Inl e, w1) \<Rightarrow> (Inl e, w1)
       | (Inr True, w1) \<Rightarrow>
           (Inl (mk_error NonError ''tool_outputs insert error''),
            console_error ''Error saving tool outputs:'' w1)
       | (Inr False, w1) \<Rightarrow> (Inr (), w1)))"

definition saveToolOutputs ::
  "(world \<Rightarrow> db_op \<Rightarrow> insert_outcome) \<Rightarrow> string \<Rightarrow> tool_call_entry list \<Rightarrow> world
     \<Rightarrow> (js_error + unit) \<times> world" where
  "saveToolOutputs policy messageId toolCalls w =
     (case saveToolOutputs_try policy messageId toolCalls w of
        (Inl err, w1) \<Rightarrow> (Inr (), console_error ''Failed to save tool outputs:'' w1)
      | (Inr u, w1) \<Rightarrow> (Inr u, w1))"

subsection \<open>The step and finish callbacks\<close>

record tool_call =
  tc_toolCallId :: string
  tc_toolName :: string
  tc_args :: jsval

record tool_result =
  tr_toolCallId :: string
  tr_result :: jsval

record step =
  st_text :: string
  st_toolCalls :: "tool_call list"
  st_toolResults :: "tool_result list"

text \<open>The \<open>toolCalls.map\<close> of \<open>onStepFinish\<close>.\<close>

definition toolCallsWithResults :: "tool_call list \<Rightarrow> tool_result list \<Rightarrow> tool_call_entry list" where
  "toolCallsWithResults toolCalls toolResults =
     map (\<lambda>call.
            (let result = find (\<lambda>r. tr_toolCallId r = tc_toolCallId call) toolResults in
             \<lparr> ce_id = tc_toolCallId call, ce_tool = tc_toolName call,
               ce_parameters = tc_args call,
               ce_result = (case result of None \<Rightarrow> Undefined
                            | Some r \<Rightarrow> js_or (tr_result r) Undefined),
               ce_state = Some (if result \<noteq> None then ''result'' else ''pending'') \<rparr>))
         toolCalls"

text \<open>
  The \<open>try\<close> block of \<open>onStepFinish\<close>. \<open>uuid n\<close> is the \<open>n\<close>-th value of
  \<open>crypto.randomUUID()\<close>; \<open>threadId\<close> is the request's thread id, \<open>None\<close> when the
  body had none.
\<close>

definition onStepFinish_try ::
  "(world \<Rightarrow> db_op \<Rightarrow> insert_outcome) \<Rightarrow> (nat \<Rightarrow> string) \<Rightarrow> string option \<Rightarrow> step \<Rightarrow> world
     \<Rightarrow> (js_error + unit) \<times> world" where
  "onStepFinish_try policy uuid threadId s w =
     (let messageId = uuid (uuids_drawn w);
          w0 = w\<lparr>uuids_drawn := Suc (uuids_drawn w)\<rparr>
      in (case db_insert policy
                 (InsertMessage \<lparr> mr_id = messageId, mr_thread_id = threadId,
                                  mr_role = ''assistant'', mr_content = st_text s \<rparr>) w0 of
            (Inl e, w1) \<Rightarrow> (Inl e, w1)
          | (Inr True, w1) \<Rightarrow> (Inr (), console_error ''Error saving message:'' w1)
          | (Inr False, w1) \<Rightarrow>
              saveToolOutputs policy messageId
                (toolCallsWithResults (st_toolCalls s) (st_toolResults s)) w1))"

definition onStepFinish ::
  "(world \<Rightarrow> db_op \<Rightarrow> insert_outcome) \<Rightarrow> (nat \<Rightarrow> string) \<Rightarrow> string option \<Rightarrow> step \<Rightarrow> world
     \<Rightarrow> (js_error + unit) \<times> world" where
  "onStepFinish policy uuid threadId s w =
     (if st_toolCalls s = [] then (Inr (), w)
      else (case onStepFinish_try policy uuid threadId s w of
              (Inl err, w1) \<Rightarrow> (Inr (), console_error ''Error in onStepFinish:'' w1)
            | (Inr u, w1) \<Rightarrow> (Inr u, w1)))"

record usage =
  promptTokens :: int
  completionTokens :: int

datatype log_outcome = Logged | LogRejects | LogThrows js_error

definition usage_json :: "usage option \<Rightarrow> jsval" where
  "usage_json u =
     (case u of
        None \<Rightarrow> zero_usage2
      | Some x \<Rightarrow> Obj [(''promptTokens'', Num (promptTokens x)),
                       (''completionTokens'', Num (completionTokens x))])"

text \<open>
  The \<open>try\<close> block of \<open>onFinish\<close>. \<open>logTokenUsage\<close> is the usage accounting: it
  resolves, rejects (handled by the \<open>.catch\<close>), or throws before returning a promise.
\<close>

definition onFinish_try ::
  "(jsval \<Rightarrow> string) \<Rightarrow> string \<Rightarrow> log_outcome \<Rightarrow> string option \<Rightarrow> usage option \<Rightarrow> string \<Rightarrow> world
     \<Rightarrow> (js_error + unit) \<times> world" where
  "onFinish_try JSON_stringify now logTokenUsage email u finishReason w =
     (let w1 = (if finishReason = ''error'' then
                  (console_error ''Stream finished with error:'' w)
                    \<lparr>streamError := Some (mk_error PlainError
                       (''STREAM_FINISH_ERROR: '' @ JSON_stringify
                          (Obj [(''type'', Str ''STREAM_FINISH_ERROR''),
                                (''finishReason'', Str finishReason),
                                (''usage'', usage_json u),
                                (''timestamp'', Str now)])))\<rparr>
                else w)
      in (case u of
            None \<Rightarrow> (Inr (), w1)
          | Some x \<Rightarrow>
              (case logTokenUsage of
                 Logged \<Rightarrow>
                   (Inr (), w1\<lparr>usage_reports := usage_reports w1 @
                        [(''Learning Buddy'', ''Claude 3.5 Sonnet'', promptTokens x,
                          completionTokens x, email)]\<rparr>)
               | LogRejects \<Rightarrow> (Inr (), console_error ''Token logging failed:'' w1)
               | LogThrows e \<Rightarrow> (Inl e, w1))))"

definition onFinish ::
  "(jsval \<Rightarrow> string) \<Rightarrow> string \<Rightarrow> log_outcome \<Rightarrow> string option \<Rightarrow> usage option \<Rightarrow> string \<Rightarrow> world
     \<Rightarrow> (js_error + unit) \<times> world" where
  "onFinish JSON_stringify now logTokenUsage email u finishReason w =
     (case onFinish_try JSON_stringify now logTokenUsage email u finishReason
             (w\<lparr>streamFinished := True\<rparr>) of
        (Inl err, w1) \<Rightarrow> (Inr (), console_error ''Error in onFinish:'' w1)
      | (Inr v, w1) \<Rightarrow> (Inr v, w1))"

subsection \<open>The transform stage\<close>

text \<open>
  A chunk of the stream: \<open>NullChunk\<close> is \<open>null\<close> or \<open>undefined\<close>; otherwise the chunk's
  \<open>type\<close> property (\<open>Undefined\<close> when it has none, as for a byte array) and the rest of
  it.
\<close>

datatype chunk = NullChunk | Chunk jsval jsval

record controller =
  queue :: "chunk list"
  terminated :: bool
  transform_console :: "string list"

definition APOLOGY_TEXT :: string where
  "APOLOGY_TEXT =
     ''\<newline>\<newline>I apologize, but I encountered an issue while processing your request. '' @
     ''Please try again or rephrase your question.\<newline>\<newline>''"

definition SORRY_TEXT :: string where
  "SORRY_TEXT = ''\<newline>\<newline>Sorry, there was an error processing part of this response.\<newline>\<newline>''"

definition text_event :: "string \<Rightarrow> chunk" where
  "text_event t = Chunk (Str ''text'') (Obj [(''text'', Str t)])"

text \<open>\<open>controller.enqueue(c)\<close> throws a \<open>TypeError\<close> once the stream is terminated.\<close>

definition enqueue :: "chunk \<Rightarrow> controller \<Rightarrow> js_error + controller" where
  "enqueue c ctl =
     (if terminated ctl then Inl (mk_error TypeError ''Invalid state: stream is closed'')
      else Inr (ctl\<lparr>queue := queue ctl @ [c]\<rparr>))"

definition chunk_type :: "chunk \<Rightarrow> js_error + jsval" where
  "chunk_type c =
     (case c of
        NullChunk \<Rightarrow> Inl (mk_error TypeError ''Cannot read properties of undefined'')
      | Chunk ty rest \<Rightarrow> Inr ty)"

definition transform_try :: "chunk \<Rightarrow> controller \<Rightarrow> js_error + controller" where
  "transform_try c ctl =
     (case chunk_type c of
        Inl e \<Rightarrow> Inl e
      | Inr ty \<Rightarrow>
          if ty = Str ''error'' then
            enqueue (text_event APOLOGY_TEXT)
              (ctl\<lparr>transform_console := transform_console ctl @ [''Stream chunk error:'']\<rparr>)
          else enqueue c ctl)"

text \<open>
  \<open>transform(chunk, controller)\<close>: an error thrown in the \<open>try\<close> block is replaced by
  the second text; an error thrown by that \<open>enqueue\<close> leaves \<open>transform\<close>.
\<close>

definition transform :: "chunk \<Rightarrow> controller \<Rightarrow> js_error + controller" where
  "transform c ctl =
     (case transform_try c ctl of
        Inl err \<Rightarrow>
          enqueue (text_event SORRY_TEXT)
            (ctl\<lparr>transform_console := transform_console ctl @ [''Transform error:'']\<rparr>)
      | Inr ctl1 \<Rightarrow> Inr ctl1)"

text \<open>\<open>flush(controller)\<close>: \<open>controller.terminate()\<close> in a \<open>try\<close> block.\<close>

definition flush :: "controller \<Rightarrow> js_error + controller" where
  "flush ctl = Inr (ctl\<lparr>terminated := True\<rparr>)"

text \<open>
  \<open>response.body.pipeThrough(transformStream)\<close>: the chunks pass through \<open>transform\<close>
  in order, then \<open>flush\<close> runs. An error that leaves \<open>transform\<close> errors the stream,
  and the chunks after it are not processed.
\<close>

fun pipeThrough :: "chunk list \<Rightarrow> controller \<Rightarrow> js_error + controller" where
  "pipeThrough [] ctl = flush ctl"
| "pipeThrough (c # cs) ctl =
     (case transform c ctl of
        Inl e \<Rightarrow> Inl e
      | Inr ctl1 \<Rightarrow> pipeThrough cs ctl1)"

definition new_controller :: controller where
  "new_controller = \<lparr> queue = [], terminated = False, transform_console = [] \<rparr>"

subsection \<open>The request and its environment\<close>

text \<open>
  The user of the session: the id, the e-mail address (\<open>None\<close> when absent or empty) and
  \<open>user_metadata?.role\<close>, which the route only compares with \<open>'Teacher'\<close>.
\<close>

record user =
  u_id :: string
  u_email :: "string option"
  u_role :: "string option"

datatype messages_field = NotAnArray | MessageArray "message list"

text \<open>
  The destructured body \<open>{ messages, id, language, teachingMode }\<close>, typed as the
  route's interface documents it; an absent property is \<open>None\<close>.
\<close>

record request_body =
  b_messages :: messages_field
  b_id :: "string option"
  b_language :: "string option"
  b_teachingMode :: "bool option"

text \<open>
  \<open>await request.json()\<close> and the destructuring: a body, or the error thrown (a
  \<open>SyntaxError\<close> for text that is not JSON, a \<open>TypeError\<close> for the body \<open>null\<close>).
\<close>

datatype body_result = BodyThrows js_error | Body request_body

text \<open>The arguments of the \<open>streamText\<close> call that the model depends on.\<close>

record stream_params =
  sp_model :: string
  sp_system :: string
  sp_messages :: "message list"
  sp_maxSteps :: nat
  sp_temperature :: rat
  sp_maxTokens :: nat

text \<open>What the model produces for one call: its steps, its chunks, its last report.\<close>

record model_run =
  run_steps :: "step list"
  run_chunks :: "chunk list"
  run_usage :: "usage option"
  run_finishReason :: string

datatype sdk_response = SdkThrows js_error | SdkResponse nat string bool

text \<open>
  The collaborators of one request. \<open>getUser_user\<close> and \<open>getUser_error\<close> are the
  answer of \<open>supabase.auth.getUser()\<close> (the error by its message);
  \<open>toDataStreamResponse\<close> answers with a thrown error or with the status, the
  status text and whether the response has a body.
\<close>

record env =
  PROMPTS :: prompt_consts
  getUser_user :: "user option"
  getUser_error :: "string option"
  request_json :: body_result
  thread_query_fails :: bool
  insert_policy :: "world \<Rightarrow> db_op \<Rightarrow> insert_outcome"
  randomUUID :: "nat \<Rightarrow> string"
  streamText :: "stream_params \<Rightarrow> js_error + model_run"
  toDataStreamResponse :: "stream_params \<Rightarrow> sdk_response"
  logTokenUsage :: log_outcome
  JSON_parse :: "string \<Rightarrow> jsval option"
  JSON_stringify :: "jsval \<Rightarrow> string"
  now :: string
  development :: bool

text \<open>
  What \<open>POST\<close> returns: the response (or the error that leaves \<open>POST\<close>), the
  \<open>streamText\<close> call it made if any, whether it called \<open>controller.abort()\<close>, and, for
  a streaming response, the model run behind the stream.
\<close>

record post_result =
  p_response :: "js_error + response"
  p_streamText :: "stream_params option"
  p_aborted :: bool
  p_run :: "model_run option"

definition respond :: "js_error + response \<Rightarrow> post_result" where
  "respond r = \<lparr> p_response = r, p_streamText = None, p_aborted = False, p_run = None \<rparr>"

text \<open>The outer \<open>catch\<close>: log, abort, classify.\<close>

definition outer ::
  "env \<Rightarrow> stream_params option \<Rightarrow> js_error \<Rightarrow> world \<Rightarrow> post_result \<times> world" where
  "outer E call err w =
     (\<lparr> p_response = outerCatch (development E) err, p_streamText = call,
        p_aborted = True, p_run = None \<rparr>,
      console_error ''General error in POST /api/gen-chat:'' w)"

text \<open>\<open>messages.map(m => ({ role: m.role, content: m.content, ... }))\<close>.\<close>

definition keep_truthy :: "jsval \<Rightarrow> jsval" where
  "keep_truthy v = (if truthy v then v else Undefined)"

definition cleanMessage :: "message \<Rightarrow> message" where
  "cleanMessage m =
     \<lparr> m_role = m_role m, m_content = m_content m, m_name = keep_truthy (m_name m),
       m_toolCalls = keep_truthy (m_toolCalls m), m_toolCallId = keep_truthy (m_toolCallId m) \<rparr>"

text \<open>\<open>error?.message || 'User not found'\<close>.\<close>

definition auth_error_text :: "string option \<Rightarrow> string" where
  "auth_error_text err =
     (case err of None \<Rightarrow> ''User not found''
      | Some m \<Rightarrow> if m = [] then ''User not found'' else m)"

text \<open>
  The thread check under \<open>if (threadId)\<close>: \<open>None\<close> when the check passes or is
  skipped (no id, or the empty string).
\<close>

definition threadCheck :: "env \<Rightarrow> world \<Rightarrow> user \<Rightarrow> string option \<Rightarrow> (js_error + response) option" where
  "threadCheck E w usr threadId =
     (case threadId of
        None \<Rightarrow> None
      | Some tid \<Rightarrow>
          if tid = [] then None
          else (case select_thread (thread_query_fails E) w tid of
                  None \<Rightarrow> Some (Response_json [(''error'', Str ''Thread not found'')] 404)
                | Some thread \<Rightarrow>
                    if th_user_id thread \<noteq> u_id usr then
                      Some (Response_json
                        [(''error'', Str ''Unauthorized thread access''),
                         (''details'', Obj [(''threadUserId'', Str (th_user_id thread)),
                                            (''currentUserId'', Str (u_id usr))])] 403)
                    else None))"

text \<open>The \<open>system\<close> argument of the \<open>streamText\<close> call.\<close>

definition selectSystem ::
  "prompt_consts \<Rightarrow> message list \<Rightarrow> string option \<Rightarrow> string \<Rightarrow> bool \<Rightarrow> js_error + string" where
  "selectSystem K cleanMessages userRole language teachingMode =
     (if teachingMode then
        Inr (if language = ''english'' then TEACHING_MODE_PROMPT K
             else TEACHING_MODE_PROMPT_HINDI K)
      else getSystemPrompt K cleanMessages userRole language False)"

text \<open>
  The inner \<open>try\<close> block with its \<open>catch (streamErr)\<close>. No \<open>await\<close> stands between
  the \<open>streamText\<close> call and this block, so the callbacks have not run: the handler's
  \<open>streamFinished\<close> and \<open>streamError\<close> are read from the world as they are. The new
  response takes the status and the status text of the SDK's response (a valid
  response, so the constructor accepts them); spreading its \<open>Headers\<close> object copies no
  entry, which leaves the three headers written out.
\<close>

definition openStream ::
  "env \<Rightarrow> stream_params \<Rightarrow> model_run \<Rightarrow> world \<Rightarrow> post_result \<times> world" where
  "openStream E params run w =
     (let failed = (\<lambda>streamErr.
            (let (r, aborted) = streamCatch (JSON_parse E) (now E) (streamFinished w)
                                  (streamError w) streamErr;
                 w1 = console_error ''Detailed stream error:'' w
             in (case r of
                   Inl thrown \<Rightarrow> outer E (Some params) thrown w1
                 | Inr resp \<Rightarrow>
                     (\<lparr> p_response = Inr resp, p_streamText = Some params,
                        p_aborted = aborted, p_run = None \<rparr>, w1))))
      in (case toDataStreamResponse E params of
            SdkThrows e \<Rightarrow> failed e
          | SdkResponse st stText hasBody \<Rightarrow>
              if \<not> hasBody then failed (mk_error PlainError ''No response stream available'')
              else
                (\<lparr> p_response = Inr \<lparr> r_status = st, r_statusText = stText,
                                      r_headers = [(''Connection'', ''keep-alive''),
                                                   (''Cache-Control'', ''no-cache''),
                                                   (''Content-Type'', ''text/event-stream'')],
                                      r_body = StreamBody \<rparr>,
                   p_streamText = Some params, p_aborted = False, p_run = Some run \<rparr>, w)))"

text \<open>
  From the creation of the clean copy of the messages to the \<open>streamText\<close> call.
  \<open>getSystemPrompt\<close> is called with three arguments, so its \<open>teachingMode\<close> is the
  default \<open>false\<close> (see \<open>selectSystem\<close>).
\<close>

definition streamParams :: "string \<Rightarrow> message list \<Rightarrow> bool \<Rightarrow> stream_params" where
  "streamParams system cleanMessages teachingMode =
     \<lparr> sp_model = ''claude-3-7-sonnet-20250219'',
       sp_system = system,
       sp_messages = cleanMessages,
       sp_maxSteps = 5,
       sp_temperature = (if teachingMode then 3 / 10 else 5 / 10),
       sp_maxTokens = (if teachingMode then 1500 else 500) \<rparr>"

definition startStream ::
  "env \<Rightarrow> world \<Rightarrow> user \<Rightarrow> message list \<Rightarrow> string \<Rightarrow> bool \<Rightarrow> post_result \<times> world" where
  "startStream E w usr ms language teachingMode =
     (let cleanMessages = map cleanMessage ms in
      (case selectSystem (PROMPTS E) cleanMessages (u_role usr) language teachingMode of
         Inl e \<Rightarrow> outer E None e w
       | Inr system \<Rightarrow>
           (let params = streamParams system cleanMessages teachingMode
            in (case streamText E params of
                  Inl e \<Rightarrow> outer E (Some params) e w
                | Inr run \<Rightarrow> openStream E params run w))))"

definition invalidMessages :: "js_error + response" where
  "invalidMessages = Response_json [(''error'', Str ''Invalid messages array'')] 400"

text \<open>The defaults of the destructuring: \<open>language = 'english'\<close>, \<open>teachingMode = false\<close>.\<close>

definition body_language :: "request_body \<Rightarrow> string" where
  "body_language b = (case b_language b of None \<Rightarrow> ''english'' | Some l \<Rightarrow> l)"

definition body_teachingMode :: "request_body \<Rightarrow> bool" where
  "body_teachingMode b = (case b_teachingMode b of None \<Rightarrow> False | Some t \<Rightarrow> t)"

text \<open>From the destructuring of the body to the safety check of the messages.\<close>

definition handleBody :: "env \<Rightarrow> world \<Rightarrow> user \<Rightarrow> request_body \<Rightarrow> post_result \<times> world" where
  "handleBody E w usr b =
     (let messages = b_messages b;
          threadId = b_id b;
          language = body_language b;
          teachingMode = body_teachingMode b
      in (case threadCheck E w usr threadId of
            Some r \<Rightarrow> (respond r, w)
          | None \<Rightarrow>
              (case messages of
                 NotAnArray \<Rightarrow> (respond invalidMessages, w)
               | MessageArray ms \<Rightarrow>
                   if ms = [] then (respond invalidMessages, w)
                   else startStream E w usr ms language teachingMode)))"

definition unauthorized :: "env \<Rightarrow> js_error + response" where
  "unauthorized E = Response_json [(''error'', Str (auth_error_text (getUser_error E)))] 401"

text \<open>
  \<open>POST\<close>, up to the point where it returns its response. It starts with
  \<open>streamFinished = false\<close> and \<open>streamError = null\<close> (\<open>handler_world\<close>); the first
  test is \<open>if (error || !user)\<close>.
\<close>

definition handler_world :: "world \<Rightarrow> world" where
  "handler_world w0 = w0\<lparr>streamFinished := False, streamError := None\<rparr>"

definition POST :: "env \<Rightarrow> world \<Rightarrow> post_result \<times> world" where
  "POST E w0 =
     (let w = handler_world w0 in
      (case getUser_user E of
         None \<Rightarrow> (respond (unauthorized E), w)
       | Some usr \<Rightarrow>
           if getUser_error E \<noteq> None then (respond (unauthorized E), w)
           else (case request_json E of
                   BodyThrows e \<Rightarrow> outer E None e w
                 | Body b \<Rightarrow> handleBody E w usr b)))"

subsection \<open>The stream after the response\<close>

text \<open>
  The SDK calls \<open>onStepFinish\<close> once for every step, in order; a callback that threw
  would fail the run at that step.
\<close>

fun runSteps ::
  "(world \<Rightarrow> db_op \<Rightarrow> insert_outcome) \<Rightarrow> (nat \<Rightarrow> string) \<Rightarrow> string option \<Rightarrow> step list \<Rightarrow> world
     \<Rightarrow> js_error + world" where
  "runSteps policy uuid threadId [] w = Inr w"
| "runSteps policy uuid threadId (s # ss) w =
     (case onStepFinish policy uuid threadId s w of
        (Inl e, w1) \<Rightarrow> Inl e
      | (Inr u, w1) \<Rightarrow> runSteps policy uuid threadId ss w1)"

text \<open>
  The whole run behind a streaming response: the steps, the finish callback, and the
  chunks through the transform. The result is the error that broke the run, or the
  final world with the controller of the outbound stream.
\<close>

definition drain ::
  "env \<Rightarrow> string option \<Rightarrow> string option \<Rightarrow> model_run \<Rightarrow> world \<Rightarrow> js_error + world \<times> controller" where
  "drain E threadId email run w =
     (case runSteps (insert_policy E) (randomUUID E) threadId (run_steps run) w of
        Inl e \<Rightarrow> Inl e
      | Inr w1 \<Rightarrow>
          (case onFinish (JSON_stringify E) (now E) (logTokenUsage E) email (run_usage run)
                  (run_finishReason run) w1 of
             (Inl e, w2) \<Rightarrow> Inl e
           | (Inr u, w2) \<Rightarrow>
               (case pipeThrough (run_chunks run) new_controller of
                  Inl e \<Rightarrow> Inl e
                | Inr ctl \<Rightarrow> Inr (w2, ctl))))"

text \<open>The thread id and the e-mail address that the callbacks of a request close over.\<close>

definition request_threadId :: "env \<Rightarrow> string option" where
  "request_threadId E = (case request_json E of Body b \<Rightarrow> b_id b | BodyThrows e \<Rightarrow> None)"

definition request_email :: "env \<Rightarrow> string option" where
  "request_email E = (case getUser_user E of Some usr \<Rightarrow> u_email usr | None \<Rightarrow> None)"

text \<open>
  A request from its arrival to the end of its stream: the result of \<open>POST\<close>, and,
  when the response streams, the outcome of the run behind it.
\<close>

definition serve :: "env \<Rightarrow> world \<Rightarrow> post_result \<times> (js_error + world \<times> controller)" where
  "serve E w0 =
     (let (res, w) = POST E w0 in
      (case p_run res of
         None \<Rightarrow> (res, Inr (w, new_controller))
       | Some run \<Rightarrow> (res, drain E (request_threadId E) (request_email E) run w)))"

subsection \<open>Vocabulary of the properties\<close>

text \<open>
  \<open>s\<close> contains the keyword \<open>k\<close> in some mix of upper and lower case: a substring of
  \<open>s\<close> lower-cases to \<open>k\<close>.
\<close>

definition contains_ci :: "string \<Rightarrow> string \<Rightarrow> bool" where
  "contains_ci s k = (\<exists>p k' q. s = p @ k' @ q \<and> toLowerCase k' = k)"

text \<open>The subject the keyword table assigns to a text, math first.\<close>

definition keyword_subject :: "string \<Rightarrow> Subject" where
  "keyword_subject s =
     (if contains_ci s ''math'' \<or> contains_ci s ''calculation'' then math
      else if contains_ci s ''science'' \<or> contains_ci s ''experiment'' then science
      else if contains_ci s ''english'' \<or> contains_ci s ''writing'' then english
      else generic)"


text \<open>What the outbound stream carries for one inbound chunk.\<close>

definition outbound :: "chunk \<Rightarrow> chunk" where
  "outbound c =
     (case c of
        NullChunk \<Rightarrow> text_event SORRY_TEXT
      | Chunk ty rest \<Rightarrow> if ty = Str ''error'' then text_event APOLOGY_TEXT else c)"

definition is_message_insert :: "db_op \<Rightarrow> bool" where
  "is_message_insert op = (case op of InsertMessage row \<Rightarrow> True | InsertToolOutputs rows \<Rightarrow> False)"

definition is_tool_insert :: "db_op \<Rightarrow> bool" where
  "is_tool_insert op = (case op of InsertMessage row \<Rightarrow> False | InsertToolOutputs rows \<Rightarrow> True)"

definition calls_tools :: "step \<Rightarrow> bool" where
  "calls_tools s = (st_toolCalls s \<noteq> [])"

text \<open>The message row that \<open>onStepFinish\<close> inserts for a step from the world \<open>w\<close>.\<close>

definition step_message_row :: "(nat \<Rightarrow> string) \<Rightarrow> string option \<Rightarrow> step \<Rightarrow> world \<Rightarrow> message_row" where
  "step_message_row uuid threadId s w =
     \<lparr> mr_id = uuid (uuids_drawn w), mr_thread_id = threadId, mr_role = ''assistant'',
       mr_content = st_text s \<rparr>"

text \<open>
  The rows \<open>onStepFinish\<close> builds for a step from the world \<open>w\<close>, the store's answers
  to its two inserts, and the world between the two.
\<close>

definition step_output_rows :: "(nat \<Rightarrow> string) \<Rightarrow> step \<Rightarrow> world \<Rightarrow> tool_output_row list" where
  "step_output_rows uuid s w =
     map (output_row (uuid (uuids_drawn w)))
       (toolCallsWithResults (st_toolCalls s) (st_toolResults s))"

definition message_insert_answer ::
  "(world \<Rightarrow> db_op \<Rightarrow> insert_outcome) \<Rightarrow> (nat \<Rightarrow> string) \<Rightarrow> string option \<Rightarrow> step \<Rightarrow> world
     \<Rightarrow> insert_outcome" where
  "message_insert_answer policy uuid threadId s w =
     policy (w\<lparr>uuids_drawn := Suc (uuids_drawn w)\<rparr>)
       (InsertMessage (step_message_row uuid threadId s w))"

definition world_after_message ::
  "(nat \<Rightarrow> string) \<Rightarrow> string option \<Rightarrow> step \<Rightarrow> world \<Rightarrow> world" where
  "world_after_message uuid threadId s w =
     w\<lparr> uuids_drawn := Suc (uuids_drawn w),
        attempts := attempts w @ [InsertMessage (step_message_row uuid threadId s w)],
        chat_messages := chat_messages w @ [step_message_row uuid threadId s w] \<rparr>"

definition tool_insert_answer ::
  "(world \<Rightarrow> db_op \<Rightarrow> insert_outcome) \<Rightarrow> (nat \<Rightarrow> string) \<Rightarrow> string option \<Rightarrow> step \<Rightarrow> world
     \<Rightarrow> insert_outcome" where
  "tool_insert_answer policy uuid threadId s w =
     policy (world_after_message uuid threadId s w) (InsertToolOutputs (step_output_rows uuid s w))"

text \<open>The response is the streaming one: the SDK's status and the three headers.\<close>

definition is_event_stream :: "nat \<Rightarrow> js_error + response \<Rightarrow> bool" where
  "is_event_stream st r =
     (case r of
        Inl e \<Rightarrow> False
      | Inr resp \<Rightarrow>
          r_status resp = st \<and> r_body resp = StreamBody \<and>
          map_of (r_headers resp) ''Content-Type'' = Some ''text/event-stream'')"

definition status_of :: "js_error + response \<Rightarrow> nat option" where
  "status_of r = (case r of Inl e \<Rightarrow> None | Inr resp \<Rightarrow> Some (r_status resp))"

definition field_of :: "js_error + response \<Rightarrow> string \<Rightarrow> jsval option" where
  "field_of r k = (case r of Inl e \<Rightarrow> None | Inr resp \<Rightarrow> json_field resp k)"

text \<open>The world at the end of a request's run, when the run ended without an error.\<close>

definition served_world :: "env \<Rightarrow> world \<Rightarrow> world option" where
  "served_world E w = (case snd (serve E w) of Inl e \<Rightarrow> None | Inr (w1, ctl) \<Rightarrow> Some w1)"

subsection \<open>Sample inputs\<close>

definition sample_prompts :: prompt_consts where
  "sample_prompts =
     \<lparr> SCIENCE_TEACHER_PROMPT = ''SCIENCE'', MATH_TEACHER_PROMPT = ''MATH'',
       ENGLISH_TEACHER_PROMPT = ''ENGLISH'', GENERIC_TEACHER_PROMPT = ''GENERIC'',
       TEACHER_BUDDY_PROMPT = ''BUDDY'', SCIENCE_TEACHER_PROMPT_HINDI = ''SCIENCE-HI'',
       MATH_TEACHER_PROMPT_HINDI = ''MATH-HI'', ENGLISH_TEACHER_PROMPT_HINDI = ''ENGLISH-HI'',
       GENERIC_TEACHER_PROMPT_HINDI = ''GENERIC-HI'', TEACHING_MODE_PROMPT = ''TEACHING'',
       TEACHING_MODE_PROMPT_HINDI = ''TEACHING-HI'' \<rparr>"

definition user_message :: "jsval \<Rightarrow> message" where
  "user_message c =
     \<lparr> m_role = Str ''user'', m_content = c, m_name = Undefined, m_toolCalls = Undefined,
       m_toolCallId = Undefined \<rparr>"

definition assistant_message :: "jsval \<Rightarrow> message" where
  "assistant_message c =
     \<lparr> m_role = Str ''assistant'', m_content = c, m_name = Undefined, m_toolCalls = Undefined,
       m_toolCallId = Undefined \<rparr>"

definition sample_student :: user where
  "sample_student = \<lparr> u_id = ''user-1'', u_email = Some ''s@example.org'', u_role = Some ''Student'' \<rparr>"


definition sample_body :: request_body where
  "sample_body =
     \<lparr> b_messages = MessageArray [user_message (Str ''explain fractions'')], b_id = None,
       b_language = Some ''english'', b_teachingMode = Some False \<rparr>"

definition sample_step :: step where
  "sample_step =
     \<lparr> st_text = ''Here is a quiz.'',
       st_toolCalls =
         [\<lparr> tc_toolCallId = ''call-1'', tc_toolName = ''generateQuiz'', tc_args = Obj [] \<rparr>,
          \<lparr> tc_toolCallId = ''call-2'', tc_toolName = ''generateImage'', tc_args = Obj [] \<rparr>],
       st_toolResults = [\<lparr> tr_toolCallId = ''call-1'', tr_result = Str ''quiz'' \<rparr>] \<rparr>"

definition text_step :: step where
  "text_step = \<lparr> st_text = ''A fraction is a part of a whole.'', st_toolCalls = [], st_toolResults = [] \<rparr>"

definition sample_chunks :: "chunk list" where
  "sample_chunks =
     [Chunk Undefined (Str ''first''), Chunk (Str ''error'') (Str ''overloaded''),
      Chunk Undefined (Str ''last'')]"

definition sample_run :: "step list \<Rightarrow> model_run" where
  "sample_run steps =
     \<lparr> run_steps = steps, run_chunks = sample_chunks,
       run_usage = Some \<lparr> promptTokens = 12, completionTokens = 34 \<rparr>,
       run_finishReason = ''stop'' \<rparr>"

definition empty_world :: world where
  "empty_world =
     \<lparr> chat_threads = [], chat_messages = [], tool_outputs = [], attempts = [], console = [],
       uuids_drawn = 0, streamFinished = False, streamError = None, usage_reports = [] \<rparr>"

definition sample_uuid :: "nat \<Rightarrow> string" where
  "sample_uuid n = ''id-'' @ replicate n (CHR ''i'')"

text \<open>
  An authenticated student sends the body \<open>b\<close>; the model answers with the steps
  \<open>steps\<close>; every collaborator works and the store accepts every insert.
\<close>

definition sample_env :: "user \<Rightarrow> request_body \<Rightarrow> step list \<Rightarrow> env" where
  "sample_env usr b steps =
     \<lparr> PROMPTS = sample_prompts, getUser_user = Some usr, getUser_error = None,
       request_json = Body b, thread_query_fails = False,
       insert_policy = (\<lambda>w op. Accepted), randomUUID = sample_uuid,
       streamText = (\<lambda>p. Inr (sample_run steps)),
       toDataStreamResponse = (\<lambda>p. SdkResponse 200 ''OK'' True),
       logTokenUsage = Logged, JSON_parse = (\<lambda>s. None), JSON_stringify = (\<lambda>v. ''{}''),
       now = ''2026-01-01T00:00:00.000Z'', development = False \<rparr>"

section \<open>Properties\<close>

subsection \<open>Strings and the last user message\<close>

lemma includes_ci:
  "includes_str (toLowerCase s) k \<longleftrightarrow> contains_ci s k"
proof
  assume "includes_str (toLowerCase s) k"
  then obtain ps ss where "map lower_char s = ps @ k @ ss"
    unfolding includes_str_def toLowerCase_def sublist_def by auto
  then obtain p r where pr: "s = p @ r" "map lower_char r = k @ ss"
    by (metis map_eq_append_conv)
  then obtain k' q where "r = k' @ q" "map lower_char k' = k"
    by (metis map_eq_append_conv)
  with pr show "contains_ci s k"
    unfolding toLowerCase_def contains_ci_def by blast
next
  assume "contains_ci s k"
  then obtain p k' q where "s = p @ k' @ q" "map lower_char k' = k"
    unfolding toLowerCase_def contains_ci_def by blast
  then have "map lower_char s = map lower_char p @ k @ map lower_char q" by simp
  then show "includes_str (toLowerCase s) k"
    unfolding includes_str_def toLowerCase_def sublist_def by blast
qed

lemma subjectOfText_keyword: "subjectOfText (toLowerCase s) = keyword_subject s"
  unfolding subjectOfText_def keyword_subject_def by (simp only: includes_ci)

lemma find_append_cases:
  "find P (xs @ ys) = (case find P xs of None \<Rightarrow> find P ys | Some x \<Rightarrow> Some x)"
  by (induction xs) auto

lemma find_none_iff: "find P xs = None \<longleftrightarrow> (\<forall>x\<in>set xs. \<not> P x)"
  by (induction xs) auto

lemma lastUserMessage_split:
  assumes "m_role m = Str ''user''" "\<forall>x\<in>set post. m_role x \<noteq> Str ''user''"
  shows "lastUserMessage (pre @ [m] @ post) = Some m"
proof -
  have "find (\<lambda>m. m_role m = Str ''user'') (rev post) = None"
    using assms(2) by (simp add: find_none_iff)
  then show ?thesis
    using assms(1) unfolding lastUserMessage_def by (simp add: find_append_cases)
qed

lemma detectSubject_last_user:
  assumes "lastUserMessage messages = Some m" "m_content m = Str s"
  shows "detectSubject messages = Inr (keyword_subject s)"
  using assms unfolding detectSubject_def lastUserText_def
  by (simp add: subjectOfText_keyword)

subsection \<open>Subject detection\<close>

text \<open>
  C6. Subject detection reads only the most recent user-authored message: whatever
  stands before it (\<open>pre\<close>) and whatever messages of other roles follow it (\<open>post\<close>),
  the subject is the one the keyword table assigns to that message's text, matched in
  any mix of upper and lower case. Math is tested first, so a text with a math keyword
  is math even when it also holds a science keyword; science comes next, then english;
  a text with none of the six keywords is generic. For a caller who is not a teacher
  and not in teaching mode, the selected prompt is the table's prompt for that subject
  and language, followed by the tools note.
\<close>

theorem C6_subject_detection:
  assumes "m_role m = Str ''user''"
      and "\<forall>x\<in>set post. m_role x \<noteq> Str ''user''"
      and "m_content m = Str s"
      and "userRole \<noteq> Some ''Teacher''"
  shows "detectSubject (pre @ [m] @ post) = Inr (keyword_subject s)
       \<and> getSystemPrompt K (pre @ [m] @ post) userRole ''english'' False =
           Inr (prompts_row K True (keyword_subject s) @ ENGLISH_TOOLS_NOTE)
       \<and> getSystemPrompt K (pre @ [m] @ post) userRole ''hindi'' False =
           Inr (prompts_row K False (keyword_subject s) @ HINDI_TOOLS_NOTE)
       \<and> (contains_ci s ''math'' \<or> contains_ci s ''calculation''
            \<longrightarrow> keyword_subject s = math)
       \<and> (\<not> contains_ci s ''math'' \<and> \<not> contains_ci s ''calculation''
            \<and> (contains_ci s ''science'' \<or> contains_ci s ''experiment'')
            \<longrightarrow> keyword_subject s = science)
       \<and> (\<not> contains_ci s ''math'' \<and> \<not> contains_ci s ''calculation''
            \<and> \<not> contains_ci s ''science'' \<and> \<not> contains_ci s ''experiment''
            \<and> (contains_ci s ''english'' \<or> contains_ci s ''writing'')
            \<longrightarrow> keyword_subject s = english)
       \<and> (\<not> contains_ci s ''math'' \<and> \<not> contains_ci s ''calculation''
            \<and> \<not> contains_ci s ''science'' \<and> \<not> contains_ci s ''experiment''
            \<and> \<not> contains_ci s ''english'' \<and> \<not> contains_ci s ''writing''
            \<longrightarrow> keyword_subject s = generic)"
proof -
  have last: "lastUserMessage (pre @ [m] @ post) = Some m"
    using assms(1,2) by (rule lastUserMessage_split)
  have d: "detectSubject (pre @ [m] @ post) = Inr (keyword_subject s)"
    using last assms(3) by (rule detectSubject_last_user)
  have e: "getSystemPrompt K (pre @ [m] @ post) userRole ''english'' False =
           Inr (prompts_row K True (keyword_subject s) @ ENGLISH_TOOLS_NOTE)"
    using assms(4) d unfolding getSystemPrompt_def prompts_def by simp
  have h: "getSystemPrompt K (pre @ [m] @ post) userRole ''hindi'' False =
           Inr (prompts_row K False (keyword_subject s) @ HINDI_TOOLS_NOTE)"
    using assms(4) d unfolding getSystemPrompt_def prompts_def by simp
  show ?thesis
    using d e h unfolding keyword_subject_def by simp
qed

lemma lower_MATH: "toLowerCase ''MATH'' = ''math''"
  by code_simp

lemma ci_math: "contains_ci ''Science or MATH homework'' ''math''"
proof -
  have "''Science or MATH homework'' = ''Science or '' @ ''MATH'' @ '' homework''" by simp
  then show ?thesis unfolding contains_ci_def using lower_MATH by blast
qed

theorem C6_subject_detection_witness:
  "detectSubject ([user_message (Str ''I like english writing'')] @
        [user_message (Str ''Science or MATH homework'')] @
        [assistant_message (Str ''science experiment'')]) = Inr math
   \<and> getSystemPrompt sample_prompts ([user_message (Str ''I like english writing'')] @
        [user_message (Str ''Science or MATH homework'')] @
        [assistant_message (Str ''science experiment'')]) (Some ''Student'') ''english'' False
       = Inr (''MATH'' @ ENGLISH_TOOLS_NOTE)"
proof -
  have r: "m_role (user_message (Str ''Science or MATH homework'')) = Str ''user''"
    by (simp add: user_message_def)
  have p: "\<forall>x\<in>set [assistant_message (Str ''science experiment'')]. m_role x \<noteq> Str ''user''"
    by (simp add: assistant_message_def)
  have c: "m_content (user_message (Str ''Science or MATH homework'')) = Str ''Science or MATH homework''"
    by (simp add: user_message_def)
  have t: "Some ''Student'' \<noteq> Some ''Teacher''" by simp
  have k: "keyword_subject ''Science or MATH homework'' = math"
    using C6_subject_detection [OF r p c t, of "[user_message (Str ''I like english writing'')]" sample_prompts] ci_math
    by blast
  show ?thesis
    using C6_subject_detection [OF r p c t, of "[user_message (Str ''I like english writing'')]" sample_prompts] k
    by (simp add: sample_prompts_def)
qed

subsection \<open>What \<open>POST\<close> passes to the model\<close>

lemma outer_streamText [simp]: "p_streamText (fst (outer E c e w)) = c"
  by (simp add: outer_def)

lemma outer_run [simp]: "p_run (fst (outer E c e w)) = None"
  by (simp add: outer_def)

lemma respond_streamText [simp]: "p_streamText (respond r) = None"
  by (simp add: respond_def)

lemma respond_run [simp]: "p_run (respond r) = None"
  by (simp add: respond_def)

lemma openStream_streamText [simp]: "p_streamText (fst (openStream E params run w)) = Some params"
  by (simp add: openStream_def Let_def split: sdk_response.splits sum.splits prod.splits)

lemma startStream_call:
  assumes "p_streamText (fst (startStream E w usr ms language teachingMode)) = Some p"
  shows "\<exists>system. selectSystem (PROMPTS E) (map cleanMessage ms) (u_role usr) language teachingMode
                    = Inr system
                 \<and> p = streamParams system (map cleanMessage ms) teachingMode"
  using assms unfolding startStream_def
  by (auto simp: Let_def split: sum.splits)

lemma handleBody_call:
  assumes "p_streamText (fst (handleBody E w usr b)) = Some p"
  shows "\<exists>ms system. threadCheck E w usr (b_id b) = None
           \<and> b_messages b = MessageArray ms \<and> ms \<noteq> []
           \<and> selectSystem (PROMPTS E) (map cleanMessage ms) (u_role usr) (body_language b)
                (body_teachingMode b) = Inr system
           \<and> p = streamParams system (map cleanMessage ms) (body_teachingMode b)"
  using assms unfolding handleBody_def
  by (auto simp: Let_def split: option.splits messages_field.splits if_splits dest: startStream_call)

lemma POST_call:
  assumes "p_streamText (fst (POST E w)) = Some p"
  shows "\<exists>usr b ms system. getUser_user E = Some usr \<and> getUser_error E = None
           \<and> request_json E = Body b
           \<and> threadCheck E (handler_world w) usr (b_id b) = None
           \<and> b_messages b = MessageArray ms \<and> ms \<noteq> []
           \<and> selectSystem (PROMPTS E) (map cleanMessage ms) (u_role usr) (body_language b)
                (body_teachingMode b) = Inr system
           \<and> p = streamParams system (map cleanMessage ms) (body_teachingMode b)"
  using assms unfolding POST_def
  by (auto simp: Let_def split: option.splits body_result.splits if_splits dest: handleBody_call)

text \<open>
  C5. Whenever \<open>POST\<close> calls \<open>streamText\<close> for a request whose \<open>teachingMode\<close> is
  \<open>true\<close>, the \<open>system\<close> argument is the teaching-mode template of the language
  (\<open>TEACHING_MODE_PROMPT\<close> for english, the default; \<open>TEACHING_MODE_PROMPT_HINDI\<close>
  otherwise), the temperature is 0.3 and the token budget is 1500; for a request
  without teaching mode they are 0.5 and 500. The teaching-mode temperature is the
  lower one and the teaching-mode budget the higher one. The two temperatures are the
  decimal literals of the source, as rationals.
\<close>

theorem C5_teaching_mode_parameters:
  assumes "p_streamText (fst (POST E w)) = Some p" and "request_json E = Body b"
  shows "(b_teachingMode b = Some True \<longrightarrow>
            sp_system p = (if body_language b = ''english'' then TEACHING_MODE_PROMPT (PROMPTS E)
                           else TEACHING_MODE_PROMPT_HINDI (PROMPTS E))
            \<and> sp_temperature p = 3 / 10 \<and> sp_maxTokens p = 1500)
       \<and> (b_teachingMode b \<noteq> Some True \<longrightarrow> sp_temperature p = 5 / 10 \<and> sp_maxTokens p = 500)
       \<and> (3 / 10 :: rat) < 5 / 10 \<and> (500 :: nat) < 1500"
proof -
  have t: "b_teachingMode b = Some True \<Longrightarrow> body_teachingMode b"
    by (simp add: body_teachingMode_def)
  have f: "b_teachingMode b \<noteq> Some True \<Longrightarrow> \<not> body_teachingMode b"
    by (cases "b_teachingMode b") (auto simp: body_teachingMode_def)
  show ?thesis
    using POST_call [OF assms(1)] assms(2) t f
    by (auto simp: streamParams_def selectSystem_def)
qed


lemma sample_call:
  "p_streamText (fst (POST (sample_env usr b steps) w)) =
     (case threadCheck (sample_env usr b steps) (handler_world w) usr (b_id b) of
        Some r \<Rightarrow> None
      | None \<Rightarrow>
          (case b_messages b of
             NotAnArray \<Rightarrow> None
           | MessageArray ms \<Rightarrow>
               if ms = [] then None
               else (case selectSystem sample_prompts (map cleanMessage ms) (u_role usr)
                            (body_language b) (body_teachingMode b) of
                       Inl e \<Rightarrow> None
                     | Inr system \<Rightarrow>
                         Some (streamParams system (map cleanMessage ms) (body_teachingMode b)))))"
  by (simp add: POST_def sample_env_def handleBody_def startStream_def Let_def
           split: option.splits messages_field.splits sum.splits)

theorem C5_teaching_mode_parameters_witness:
  "\<exists>p. p_streamText (fst (POST (sample_env sample_student
            (sample_body\<lparr>b_language := Some ''hindi'', b_teachingMode := Some True\<rparr>) [])
            empty_world)) = Some p
       \<and> sp_system p = ''TEACHING-HI'' \<and> sp_temperature p = 3 / 10 \<and> sp_maxTokens p = 1500"
proof -
  let ?b = "sample_body\<lparr>b_language := Some ''hindi'', b_teachingMode := Some True\<rparr>"
  let ?E = "sample_env sample_student ?b []"
  let ?p = "streamParams ''TEACHING-HI''
       (map cleanMessage [user_message (Str ''explain fractions'')]) True"
  have call: "p_streamText (fst (POST ?E empty_world)) = Some ?p"
    by (simp add: sample_call threadCheck_def sample_body_def selectSystem_def
          body_language_def body_teachingMode_def sample_prompts_def)
  have body: "request_json ?E = Body ?b"
    by (simp add: sample_env_def)
  have tm: "b_teachingMode ?b = Some True" by simp
  have lang: "body_language ?b \<noteq> ''english''" by (simp add: body_language_def)
  have pr: "TEACHING_MODE_PROMPT_HINDI (PROMPTS ?E) = ''TEACHING-HI''"
    by (simp add: sample_env_def sample_prompts_def)
  have "sp_system ?p = ''TEACHING-HI'' \<and> sp_temperature ?p = 3 / 10 \<and> sp_maxTokens ?p = 1500"
    using C5_teaching_mode_parameters [OF call body] tm lang pr by simp
  with call show ?thesis by blast
qed

subsection \<open>Prompt selection\<close>

lemma getSystemPrompt_Teacher:
  "getSystemPrompt K messages (Some ''Teacher'') language teachingMode = Inr (TEACHER_BUDDY_PROMPT K)"
  by (simp add: getSystemPrompt_def)

lemma selectSystem_teachingMode:
  "selectSystem K messages userRole language True =
     Inr (if language = ''english'' then TEACHING_MODE_PROMPT K else TEACHING_MODE_PROMPT_HINDI K)"
  by (simp add: selectSystem_def)

lemma selectSystem_Teacher_normal:
  "selectSystem K messages (Some ''Teacher'') language False = Inr (TEACHER_BUDDY_PROMPT K)"
  by (simp add: selectSystem_def getSystemPrompt_def)

lemma POST_prompt_deterministic:
  assumes "p_streamText (fst (POST E1 w1)) = Some p1"
      and "p_streamText (fst (POST E2 w2)) = Some p2"
      and "request_json E1 = Body b1" and "request_json E2 = Body b2"
      and "getUser_user E1 = Some u1" and "getUser_user E2 = Some u2"
      and "PROMPTS E1 = PROMPTS E2" and "u_role u1 = u_role u2"
      and "body_language b1 = body_language b2"
      and "body_teachingMode b1 = body_teachingMode b2"
      and "b_messages b1 = b_messages b2"
  shows "sp_system p1 = sp_system p2"
  using POST_call [OF assms(1)] POST_call [OF assms(2)] assms(3-)
  by (auto simp: streamParams_def)



lemma lastUserText_ok:
  assumes "\<forall>m. lastUserMessage messages = Some m \<longrightarrow> (\<exists>s. m_content m = Str s)"
  shows "\<exists>t. lastUserText messages = Inr t"
  using assms unfolding lastUserText_def
  by (cases "lastUserMessage messages") auto

text \<open>
  C9, as amended. With non-empty teacher-buddy and teaching-mode texts,
  \<open>getSystemPrompt\<close> returns a non-empty string for every teacher and for every call in
  teaching mode, whatever the language and the messages; for the other calls it does so
  when the language is \<open>english\<close> or \<open>hindi\<close> and the most recent user-authored
  message, if there is one, has a string as its content.
\<close>

theorem C9_getSystemPrompt_total:
  assumes "TEACHER_BUDDY_PROMPT K \<noteq> []"
      and "TEACHING_MODE_PROMPT K \<noteq> []"
      and "TEACHING_MODE_PROMPT_HINDI K \<noteq> []"
      and "userRole = Some ''Teacher'' \<or> teachingMode
           \<or> ((language = ''english'' \<or> language = ''hindi'')
               \<and> (\<forall>m. lastUserMessage messages = Some m \<longrightarrow> (\<exists>s. m_content m = Str s)))"
  shows "\<exists>p. getSystemPrompt K messages userRole language teachingMode = Inr p \<and> p \<noteq> []"
proof (cases "userRole = Some ''Teacher'' \<or> teachingMode")
  case True
  then show ?thesis
    using assms(1-3) by (auto simp: getSystemPrompt_def)
next
  case False
  with assms(4) have lang: "language = ''english'' \<or> language = ''hindi''"
    and ok: "\<forall>m. lastUserMessage messages = Some m \<longrightarrow> (\<exists>s. m_content m = Str s)"
    by auto
  from lastUserText_ok [OF ok] obtain t where t: "lastUserText messages = Inr t" ..
  have e: "ENGLISH_TOOLS_NOTE \<noteq> []" by (simp add: ENGLISH_TOOLS_NOTE_def)
  have h: "HINDI_TOOLS_NOTE \<noteq> []" by (simp add: HINDI_TOOLS_NOTE_def)
  show ?thesis
    using False lang t e h
    by (auto simp: getSystemPrompt_def detectSubject_def prompts_def)
qed

theorem C9_getSystemPrompt_total_witness:
  "\<exists>p. getSystemPrompt sample_prompts [assistant_message (Str ''hello'')] None ''hindi'' False
          = Inr p \<and> p \<noteq> []"
proof -
  have a: "TEACHER_BUDDY_PROMPT sample_prompts \<noteq> []"
    and b: "TEACHING_MODE_PROMPT sample_prompts \<noteq> []"
    and c: "TEACHING_MODE_PROMPT_HINDI sample_prompts \<noteq> []"
    by (simp_all add: sample_prompts_def)
  have d: "None = Some ''Teacher'' \<or> False
           \<or> ((''hindi'' = ''english'' \<or> ''hindi'' = ''hindi'')
               \<and> (\<forall>m. lastUserMessage [assistant_message (Str ''hello'')] = Some m
                      \<longrightarrow> (\<exists>s. m_content m = Str s)))"
    by (simp add: lastUserMessage_def assistant_message_def)
  show ?thesis
    by (rule C9_getSystemPrompt_total [OF a b c d])
qed

text \<open>
  C9 as stated fails: for a caller outside teaching mode who is not a teacher and whose
  last message has no content, or an array as content, \<open>getSystemPrompt\<close> throws a
  \<open>TypeError\<close> and returns no string.
\<close>

theorem C9_content_not_a_string_counterexample:
  "getSystemPrompt sample_prompts [user_message Undefined] (Some ''Student'') ''english'' False
     = Inl (mk_error TypeError ''Cannot read properties of undefined'')
   \<and> getSystemPrompt sample_prompts
        [user_message (Arr [Obj [(''type'', Str ''text''), (''text'', Str ''hi'')]])]
        None ''english'' False
     = Inl (mk_error TypeError ''toLowerCase is not a function'')"
  by (simp add: getSystemPrompt_def detectSubject_def lastUserText_def lastUserMessage_def
        user_message_def)

subsection \<open>The transform stage\<close>

lemma enqueue_open:
  "\<not> terminated ctl \<Longrightarrow> enqueue c ctl = Inr (ctl\<lparr>queue := queue ctl @ [c]\<rparr>)"
  by (simp add: enqueue_def)

lemma transform_open:
  assumes "\<not> terminated ctl"
  shows "\<exists>ctl1. transform c ctl = Inr ctl1 \<and> queue ctl1 = queue ctl @ [outbound c]
               \<and> \<not> terminated ctl1"
  using assms
  by (cases c) (auto simp: transform_def transform_try_def chunk_type_def outbound_def enqueue_def)

lemma pipeThrough_open:
  assumes "\<not> terminated ctl"
  shows "\<exists>ctl1. pipeThrough cs ctl = Inr ctl1 \<and> queue ctl1 = queue ctl @ map outbound cs
               \<and> terminated ctl1"
  using assms
proof (induction cs arbitrary: ctl)
  case Nil
  then show ?case by (simp add: flush_def)
next
  case (Cons c cs)
  from transform_open [OF Cons.prems, of c] obtain ctl1 where
    t: "transform c ctl = Inr ctl1" "queue ctl1 = queue ctl @ [outbound c]" "\<not> terminated ctl1"
    by blast
  from Cons.IH [OF t(3)] obtain ctl2 where
    "pipeThrough cs ctl1 = Inr ctl2" "queue ctl2 = queue ctl1 @ map outbound cs" "terminated ctl2"
    by blast
  with t show ?case by simp
qed





subsection \<open>The step callback and the run\<close>

lemma onStepFinish_no_tools:
  "st_toolCalls s = [] \<Longrightarrow> onStepFinish policy uuid threadId s w = (Inr (), w)"
  by (simp add: onStepFinish_def)

lemma onStepFinish_message_failed:
  assumes "st_toolCalls s \<noteq> []"
      and "message_insert_answer policy uuid threadId s w \<noteq> Accepted"
  shows "\<exists>line. onStepFinish policy uuid threadId s w =
           (Inr (), w\<lparr> uuids_drawn := Suc (uuids_drawn w),
                       attempts := attempts w @ [InsertMessage (step_message_row uuid threadId s w)],
                       console := console w @ [line] \<rparr>)"
  using assms
  by (cases "message_insert_answer policy uuid threadId s w")
     (auto simp: onStepFinish_def onStepFinish_try_def db_insert_def message_insert_answer_def
        step_message_row_def console_error_def Let_def)

lemma onStepFinish_tools_failed:
  assumes "st_toolCalls s \<noteq> []"
      and "message_insert_answer policy uuid threadId s w = Accepted"
      and "tool_insert_answer policy uuid threadId s w \<noteq> Accepted"
  shows "\<exists>lines. lines \<noteq> [] \<and> onStepFinish policy uuid threadId s w =
           (Inr (), (world_after_message uuid threadId s w)
                      \<lparr> attempts := attempts w @ [InsertMessage (step_message_row uuid threadId s w),
                                                  InsertToolOutputs (step_output_rows uuid s w)],
                        console := console w @ lines \<rparr>)"
  using assms
  by (cases "tool_insert_answer policy uuid threadId s w")
     (auto simp: onStepFinish_def onStepFinish_try_def db_insert_def message_insert_answer_def
        tool_insert_answer_def world_after_message_def step_output_rows_def
        saveToolOutputs_def saveToolOutputs_try_def store_rows_def
        step_message_row_def console_error_def Let_def)

lemma onStepFinish_stored:
  assumes "st_toolCalls s \<noteq> []"
      and "message_insert_answer policy uuid threadId s w = Accepted"
      and "tool_insert_answer policy uuid threadId s w = Accepted"
  shows "onStepFinish policy uuid threadId s w =
           (Inr (), (world_after_message uuid threadId s w)
                      \<lparr> attempts := attempts w @ [InsertMessage (step_message_row uuid threadId s w),
                                                  InsertToolOutputs (step_output_rows uuid s w)],
                        tool_outputs := tool_outputs w @ step_output_rows uuid s w \<rparr>)"
  using assms
  by (auto simp: onStepFinish_def onStepFinish_try_def db_insert_def message_insert_answer_def
        tool_insert_answer_def world_after_message_def step_output_rows_def
        saveToolOutputs_def saveToolOutputs_try_def store_rows_def
        step_message_row_def console_error_def Let_def)


lemma onStepFinish_cases:
  obtains (no_tools) "st_toolCalls s = []" "onStepFinish policy uuid threadId s w = (Inr (), w)"
  | (message_failed) line where "st_toolCalls s \<noteq> []"
      "message_insert_answer policy uuid threadId s w \<noteq> Accepted"
      "onStepFinish policy uuid threadId s w =
           (Inr (), w\<lparr> uuids_drawn := Suc (uuids_drawn w),
                       attempts := attempts w @ [InsertMessage (step_message_row uuid threadId s w)],
                       console := console w @ [line] \<rparr>)"
  | (tools_failed) lines where "st_toolCalls s \<noteq> []" "lines \<noteq> []"
      "message_insert_answer policy uuid threadId s w = Accepted"
      "tool_insert_answer policy uuid threadId s w \<noteq> Accepted"
      "onStepFinish policy uuid threadId s w =
           (Inr (), (world_after_message uuid threadId s w)
                      \<lparr> attempts := attempts w @ [InsertMessage (step_message_row uuid threadId s w),
                                                  InsertToolOutputs (step_output_rows uuid s w)],
                        console := console w @ lines \<rparr>)"
  | (stored) "st_toolCalls s \<noteq> []"
      "message_insert_answer policy uuid threadId s w = Accepted"
      "tool_insert_answer policy uuid threadId s w = Accepted"
      "onStepFinish policy uuid threadId s w =
           (Inr (), (world_after_message uuid threadId s w)
                      \<lparr> attempts := attempts w @ [InsertMessage (step_message_row uuid threadId s w),
                                                  InsertToolOutputs (step_output_rows uuid s w)],
                        tool_outputs := tool_outputs w @ step_output_rows uuid s w \<rparr>)"
proof (cases "st_toolCalls s = []")
  case True
  then show ?thesis using no_tools onStepFinish_no_tools by blast
next
  case nonempty: False
  show ?thesis
  proof (cases "message_insert_answer policy uuid threadId s w = Accepted")
    case False
    with nonempty onStepFinish_message_failed [OF nonempty False] message_failed
    show ?thesis by blast
  next
    case acc: True
    show ?thesis
    proof (cases "tool_insert_answer policy uuid threadId s w = Accepted")
      case True
      with nonempty acc onStepFinish_stored [OF nonempty acc True] stored
      show ?thesis by blast
    next
      case False
      with nonempty acc onStepFinish_tools_failed [OF nonempty acc False] tools_failed
      show ?thesis by blast
    qed
  qed
qed

lemma onStepFinish_returns: "fst (onStepFinish policy uuid threadId s w) = Inr ()"
  by (cases rule: onStepFinish_cases [of s policy uuid threadId w]) simp_all

lemma onStepFinish_attempts:
  "length (filter is_message_insert (attempts (snd (onStepFinish policy uuid threadId s w)))) =
     length (filter is_message_insert (attempts w)) + (if calls_tools s then 1 else 0)"
  by (cases rule: onStepFinish_cases [of s policy uuid threadId w])
     (simp_all add: calls_tools_def is_message_insert_def world_after_message_def)

lemma onStepFinish_logs:
  assumes "calls_tools s"
      and "message_insert_answer policy uuid threadId s w \<noteq> Accepted
           \<or> tool_insert_answer policy uuid threadId s w \<noteq> Accepted"
  shows "length (console w) < length (console (snd (onStepFinish policy uuid threadId s w)))"
  using assms
  by (cases rule: onStepFinish_cases [of s policy uuid threadId w])
     (auto simp: calls_tools_def world_after_message_def)

lemma runSteps_returns:
  "\<exists>w1. runSteps policy uuid threadId steps w = Inr w1
      \<and> length (filter is_message_insert (attempts w1)) =
          length (filter is_message_insert (attempts w)) + length (filter calls_tools steps)"
proof (induction steps arbitrary: w)
  case Nil
  show ?case by simp
next
  case (Cons s steps)
  obtain w0 where step: "onStepFinish policy uuid threadId s w = (Inr (), w0)"
    using onStepFinish_returns [of policy uuid threadId s w]
    by (cases "onStepFinish policy uuid threadId s w") auto
  have n: "length (filter is_message_insert (attempts w0)) =
     length (filter is_message_insert (attempts w)) + (if calls_tools s then 1 else 0)"
    using onStepFinish_attempts [of policy uuid threadId s w] step by simp
  from Cons.IH [of w0] obtain w1 where
    "runSteps policy uuid threadId steps w0 = Inr w1"
    "length (filter is_message_insert (attempts w1)) =
       length (filter is_message_insert (attempts w0)) + length (filter calls_tools steps)"
    by blast
  with step n show ?case by simp
qed

lemma onFinish_returns:
  "\<exists>w1. onFinish stringify now' logger email u finishReason w = (Inr (), w1) \<and> streamFinished w1"
  by (cases u; cases logger)
     (auto simp: onFinish_def onFinish_try_def console_error_def Let_def)

lemma drain_returns:
  "\<exists>w1 ctl. drain E threadId email run w = Inr (w1, ctl) \<and> streamFinished w1 \<and> terminated ctl
      \<and> queue ctl = map outbound (run_chunks run)"
proof -
  obtain w0 where a: "runSteps (insert_policy E) (randomUUID E) threadId (run_steps run) w = Inr w0"
    using runSteps_returns by blast
  obtain w1 where b: "onFinish (JSON_stringify E) (now E) (logTokenUsage E) email (run_usage run)
                  (run_finishReason run) w0 = (Inr (), w1)" "streamFinished w1"
    using onFinish_returns by blast
  have "\<not> terminated new_controller" by (simp add: new_controller_def)
  from pipeThrough_open [OF this, of "run_chunks run"] obtain ctl where
    c: "pipeThrough (run_chunks run) new_controller = Inr ctl"
       "queue ctl = map outbound (run_chunks run)" "terminated ctl"
    by (auto simp: new_controller_def)
  from a b c show ?thesis by (simp add: drain_def)
qed

text \<open>
  C7. \<open>onStepFinish\<close> never throws, whatever the store answers to its inserts. When a
  step called tools and the message insert or the tool-output insert was not accepted,
  the console has a new line after the callback. The run goes through every step
  (one message insert is attempted for each step that called tools, failed or not), and
  the whole run behind a response completes: the finish callback has run and the
  outbound stream is terminated by \<open>flush\<close> with every chunk processed.
\<close>

theorem C7_persistence_failures_swallowed:
  "fst (onStepFinish policy uuid threadId s w) = Inr ()
   \<and> (calls_tools s \<and> (message_insert_answer policy uuid threadId s w \<noteq> Accepted
                        \<or> tool_insert_answer policy uuid threadId s w \<noteq> Accepted)
        \<longrightarrow> length (console w) < length (console (snd (onStepFinish policy uuid threadId s w))))
   \<and> (\<exists>w1. runSteps policy uuid threadId steps w = Inr w1
          \<and> length (filter is_message_insert (attempts w1)) =
              length (filter is_message_insert (attempts w)) + length (filter calls_tools steps))
   \<and> (\<exists>w1 ctl. drain E threadId email run w = Inr (w1, ctl) \<and> streamFinished w1
          \<and> terminated ctl \<and> queue ctl = map outbound (run_chunks run))"
  using onStepFinish_returns [of policy uuid threadId s w]
        onStepFinish_logs [of s policy uuid threadId w]
        runSteps_returns [of policy uuid threadId steps w]
        drain_returns [of E threadId email run w]
  by blast

theorem C7_persistence_failures_swallowed_witness:
  "fst (onStepFinish (\<lambda>w op. Refused) sample_uuid None sample_step empty_world) = Inr ()
   \<and> length (console empty_world)
        < length (console (snd (onStepFinish (\<lambda>w op. Refused) sample_uuid None sample_step
                                  empty_world)))
   \<and> (\<exists>w1. runSteps (\<lambda>w op. Refused) sample_uuid None [sample_step, text_step, sample_step]
               empty_world = Inr w1
          \<and> length (filter is_message_insert (attempts w1)) = 2)
   \<and> (\<exists>w1 ctl. drain (sample_env sample_student sample_body [sample_step]
                         \<lparr>insert_policy := (\<lambda>w op. Refused)\<rparr>)
                  None None (sample_run [sample_step]) empty_world = Inr (w1, ctl)
          \<and> streamFinished w1 \<and> terminated ctl)"
proof -
  have c: "calls_tools sample_step \<and>
           (message_insert_answer (\<lambda>w op. Refused) sample_uuid None sample_step empty_world
              \<noteq> Accepted
            \<or> tool_insert_answer (\<lambda>w op. Refused) sample_uuid None sample_step empty_world
              \<noteq> Accepted)"
    by (simp add: calls_tools_def sample_step_def message_insert_answer_def)
  have n: "length (filter is_message_insert (attempts empty_world)) +
           length (filter calls_tools [sample_step, text_step, sample_step]) = 2"
    by (simp add: empty_world_def calls_tools_def sample_step_def text_step_def)
  note T = C7_persistence_failures_swallowed [of "\<lambda>w op. Refused" sample_uuid None sample_step
        empty_world "[sample_step, text_step, sample_step]"
        "sample_env sample_student sample_body [sample_step]
           \<lparr>insert_policy := (\<lambda>w op. Refused)\<rparr>" None "sample_run [sample_step]"]
  from T have t1: "fst (onStepFinish (\<lambda>w op. Refused) sample_uuid None sample_step empty_world)
                    = Inr ()"
    by (rule conjunct1)
  from T [THEN conjunct2, THEN conjunct1] c
  have t2: "length (console empty_world)
        < length (console (snd (onStepFinish (\<lambda>w op. Refused) sample_uuid None sample_step
                                  empty_world)))"
    by (rule mp)
  from T [THEN conjunct2, THEN conjunct2, THEN conjunct1]
  have t3: "\<exists>w1. runSteps (\<lambda>w op. Refused) sample_uuid None [sample_step, text_step, sample_step]
               empty_world = Inr w1
          \<and> length (filter is_message_insert (attempts w1)) = 2"
    by (simp only: n)
  from T [THEN conjunct2, THEN conjunct2, THEN conjunct2]
  have t4: "\<exists>w1 ctl. drain (sample_env sample_student sample_body [sample_step]
                         \<lparr>insert_policy := (\<lambda>w op. Refused)\<rparr>)
                  None None (sample_run [sample_step]) empty_world = Inr (w1, ctl)
          \<and> streamFinished w1 \<and> terminated ctl"
    by blast
  from t1 t2 t3 t4 show ?thesis by (intro conjI)
qed

subsection \<open>Order and state of the persisted rows\<close>

lemma find_some_iff: "(\<exists>y. find P xs = Some y) \<longleftrightarrow> (\<exists>x\<in>set xs. P x)"
  by (induction xs) auto

lemma output_row_state:
  assumes "x \<in> set (step_output_rows uuid s w)"
  shows "to_message_id x = mr_id (step_message_row uuid threadId s w)
       \<and> to_state x = (if \<exists>r\<in>set (st_toolResults s). tr_toolCallId r = to_tool_call_id x
                        then ''result'' else ''pending'')"
  using assms
  by (auto simp: step_output_rows_def toolCallsWithResults_def output_row_def
        state_or_pending_def step_message_row_def Let_def find_some_iff find_none_iff)

lemma output_rows_ids:
  "map to_tool_call_id (step_output_rows uuid s w) = map tc_toolCallId (st_toolCalls s)"
  by (simp add: step_output_rows_def toolCallsWithResults_def output_row_def Let_def comp_def)

text \<open>
  C10. For one call of \<open>onStepFinish\<close>: if it added rows to \<open>tool_outputs\<close>, then the
  store had accepted the step's message row, that row is in \<open>chat_messages\<close>, and the
  message insert was attempted before the tool-output insert; if the message insert was
  not accepted, no tool-output insert is attempted and \<open>tool_outputs\<close> is unchanged.
  Every row built for the step carries the message's id, and its state is \<open>result\<close>
  exactly when a tool result of the step has the row's call id, \<open>pending\<close> otherwise;
  the rows are the step's tool calls, in order.
\<close>

theorem C10_step_persistence:
  assumes "onStepFinish policy uuid threadId s w = (r, w1)"
  shows "(tool_outputs w1 \<noteq> tool_outputs w \<longrightarrow>
            message_insert_answer policy uuid threadId s w = Accepted
            \<and> chat_messages w1 = chat_messages w @ [step_message_row uuid threadId s w]
            \<and> tool_outputs w1 = tool_outputs w @ step_output_rows uuid s w
            \<and> attempts w1 = attempts w @ [InsertMessage (step_message_row uuid threadId s w),
                                           InsertToolOutputs (step_output_rows uuid s w)])
       \<and> (message_insert_answer policy uuid threadId s w \<noteq> Accepted \<longrightarrow>
            tool_outputs w1 = tool_outputs w
            \<and> filter is_tool_insert (attempts w1) = filter is_tool_insert (attempts w))
       \<and> (\<forall>x\<in>set (step_output_rows uuid s w).
            to_message_id x = mr_id (step_message_row uuid threadId s w)
            \<and> (to_state x = ''result'' \<longleftrightarrow>
                  (\<exists>t\<in>set (st_toolResults s). tr_toolCallId t = to_tool_call_id x))
            \<and> (to_state x = ''pending'' \<longleftrightarrow>
                  \<not> (\<exists>t\<in>set (st_toolResults s). tr_toolCallId t = to_tool_call_id x)))
       \<and> map to_tool_call_id (step_output_rows uuid s w) = map tc_toolCallId (st_toolCalls s)"
proof -
  have a: "tool_outputs w1 \<noteq> tool_outputs w \<longrightarrow>
            message_insert_answer policy uuid threadId s w = Accepted
            \<and> chat_messages w1 = chat_messages w @ [step_message_row uuid threadId s w]
            \<and> tool_outputs w1 = tool_outputs w @ step_output_rows uuid s w
            \<and> attempts w1 = attempts w @ [InsertMessage (step_message_row uuid threadId s w),
                                           InsertToolOutputs (step_output_rows uuid s w)]"
    using assms
    by (cases rule: onStepFinish_cases [of s policy uuid threadId w])
       (auto simp: world_after_message_def)
  have b: "message_insert_answer policy uuid threadId s w \<noteq> Accepted \<longrightarrow>
            tool_outputs w1 = tool_outputs w
            \<and> filter is_tool_insert (attempts w1) = filter is_tool_insert (attempts w)"
    using assms
    by (cases rule: onStepFinish_cases [of s policy uuid threadId w])
       (auto simp: world_after_message_def is_tool_insert_def)
  have c: "\<forall>x\<in>set (step_output_rows uuid s w).
            to_message_id x = mr_id (step_message_row uuid threadId s w)
            \<and> (to_state x = ''result'' \<longleftrightarrow>
                  (\<exists>t\<in>set (st_toolResults s). tr_toolCallId t = to_tool_call_id x))
            \<and> (to_state x = ''pending'' \<longleftrightarrow>
                  \<not> (\<exists>t\<in>set (st_toolResults s). tr_toolCallId t = to_tool_call_id x))"
    using output_row_state [of _ uuid s w threadId] by auto
  from a b c output_rows_ids [of uuid s w] show ?thesis by blast
qed


theorem C10_step_persistence_witness:
  "chat_messages (snd (onStepFinish (\<lambda>w op. Accepted) sample_uuid (Some ''thread-1'')
                         sample_step empty_world))
     = [step_message_row sample_uuid (Some ''thread-1'') sample_step empty_world]
   \<and> map to_state (tool_outputs (snd (onStepFinish (\<lambda>w op. Accepted) sample_uuid
                         (Some ''thread-1'') sample_step empty_world)))
     = [''result'', ''pending'']
   \<and> map to_tool_call_id (tool_outputs (snd (onStepFinish (\<lambda>w op. Accepted) sample_uuid
                         (Some ''thread-1'') sample_step empty_world)))
     = [''call-1'', ''call-2'']"
proof -
  let ?X = "onStepFinish (\<lambda>w op. Accepted) sample_uuid (Some ''thread-1'') sample_step empty_world"
  have h: "?X = (fst ?X, snd ?X)" by simp
  have t: "st_toolCalls sample_step \<noteq> []" by (simp add: sample_step_def)
  have m: "message_insert_answer (\<lambda>w op. Accepted) sample_uuid (Some ''thread-1'') sample_step
             empty_world = Accepted"
    by (simp add: message_insert_answer_def)
  have o: "tool_insert_answer (\<lambda>w op. Accepted) sample_uuid (Some ''thread-1'') sample_step
             empty_world = Accepted"
    by (simp add: tool_insert_answer_def)
  have rows: "step_output_rows sample_uuid sample_step empty_world \<noteq> []"
    by (simp add: step_output_rows_def toolCallsWithResults_def sample_step_def)
  have changed: "tool_outputs (snd ?X) \<noteq> tool_outputs empty_world"
    using onStepFinish_stored [OF t m o] rows by (simp add: empty_world_def)
  have st: "map to_state (step_output_rows sample_uuid sample_step empty_world)
              = [''result'', ''pending'']"
    by (simp add: step_output_rows_def toolCallsWithResults_def sample_step_def output_row_def
          state_or_pending_def)
  have ids: "map tc_toolCallId (st_toolCalls sample_step) = [''call-1'', ''call-2'']"
    by (simp add: sample_step_def)
  note T = C10_step_persistence [OF h]
  from T [THEN conjunct1] changed
  have a: "message_insert_answer (\<lambda>w op. Accepted) sample_uuid (Some ''thread-1'') sample_step
             empty_world = Accepted
         \<and> chat_messages (snd ?X) = chat_messages empty_world @
              [step_message_row sample_uuid (Some ''thread-1'') sample_step empty_world]
         \<and> tool_outputs (snd ?X) = tool_outputs empty_world @
              step_output_rows sample_uuid sample_step empty_world
         \<and> attempts (snd ?X) = attempts empty_world @
              [InsertMessage (step_message_row sample_uuid (Some ''thread-1'') sample_step empty_world),
               InsertToolOutputs (step_output_rows sample_uuid sample_step empty_world)]"
    by (rule mp)
  have e: "chat_messages empty_world = []" "tool_outputs empty_world = []"
    by (simp_all add: empty_world_def)
  from a have cm: "chat_messages (snd ?X) =
              [step_message_row sample_uuid (Some ''thread-1'') sample_step empty_world]"
    by (simp only: e append_Nil)
  from a have tl: "tool_outputs (snd ?X) = step_output_rows sample_uuid sample_step empty_world"
    by (simp only: e append_Nil)
  from T [THEN conjunct2, THEN conjunct2, THEN conjunct2]
  have i: "map to_tool_call_id (step_output_rows sample_uuid sample_step empty_world)
             = [''call-1'', ''call-2'']"
    by (simp only: ids)
  show ?thesis
    by (intro conjI) (simp_all only: cm tl st i)
qed

subsection \<open>The finish-error branch of the stream boundary\<close>

lemma indexOf_absent: "c \<notin> set s \<Longrightarrow> indexOf s c = - 1"
  by (induction s) (auto simp: Let_def)

lemma indexOf_present: "c \<in> set s \<Longrightarrow> 0 \<le> indexOf s c"
  by (induction s) (auto simp: Let_def)

lemma Response_json_500 [simp]:
  "Response_json obj 500 = Inr \<lparr> r_status = 500, r_statusText = [],
       r_headers = [(''content-type'', ''application/json'')], r_body = JsonBody obj \<rparr>"
  by (simp add: Response_json_def)

lemma classify_never_finish_code:
  "field_of (classifyStreamError se e) ''code'' \<noteq> Some (Str ''STREAM_FINISH_ERROR'')"
  by (cases se)
     (auto simp: classifyStreamError_def field_of_def json_field_def Response_json_def
        split: sum.splits)

text \<open>
  C8. The branch for finish errors returns only under \<open>if (jsonStartIndex >= 0)\<close> or
  from its \<open>catch\<close>. For an error whose message holds the marker \<open>STREAM_FINISH_ERROR\<close>
  and no \<open>{\<close>, the branch returns nothing and the general classification answers: the
  code of the response is never \<open>STREAM_FINISH_ERROR\<close> (it is \<open>STREAM_TYPE_ERROR\<close>,
  \<open>STREAM_AI_ERROR\<close>, \<open>STREAM_REPORTED_ERROR\<close> or \<open>STREAM_ERROR\<close>). With a \<open>{\<close> in the
  message the response is the one the claim describes (\<open>finish_error_with_fragment\<close>
  below).
\<close>

theorem C8_finish_marker_without_fragment:
  assumes "isStreamFinishError e" and "CHR ''{'' \<notin> set (e_message e)"
  shows "fst (streamCatch parse now' fin se e) = classifyStreamError se e
       \<and> field_of (fst (streamCatch parse now' fin se e)) ''code''
            \<noteq> Some (Str ''STREAM_FINISH_ERROR'')"
proof -
  have "finishErrorResponse parse now' e = None"
    using indexOf_absent [OF assms(2)] by (simp add: finishErrorResponse_def)
  then have "fst (streamCatch parse now' fin se e) = classifyStreamError se e"
    using assms(1) by (simp add: streamCatch_def)
  then show ?thesis using classify_never_finish_code by simp
qed

lemma marker_sample: "isStreamFinishError (mk_error PlainError ''STREAM_FINISH_ERROR: aborted'')"
  by (simp add: isStreamFinishError_def instanceof_Error_def mk_error_def includes_str_def)

theorem C8_finish_marker_without_fragment_witness:
  "field_of (fst (streamCatch (\<lambda>s. None) ''2026-01-01T00:00:00.000Z'' False None
                   (mk_error PlainError ''STREAM_FINISH_ERROR: aborted''))) ''code''
     = Some (Str ''STREAM_ERROR'')
   \<and> status_of (fst (streamCatch (\<lambda>s. None) ''2026-01-01T00:00:00.000Z'' False None
                   (mk_error PlainError ''STREAM_FINISH_ERROR: aborted''))) = Some 500"
proof -
  have b: "CHR ''{'' \<notin> set (e_message (mk_error PlainError ''STREAM_FINISH_ERROR: aborted''))"
    by (simp add: mk_error_def)
  have c: "field_of (classifyStreamError None (mk_error PlainError ''STREAM_FINISH_ERROR: aborted''))
             ''code'' = Some (Str ''STREAM_ERROR'')
         \<and> status_of (classifyStreamError None (mk_error PlainError ''STREAM_FINISH_ERROR: aborted''))
             = Some 500"
    by (simp add: classifyStreamError_def isTypeError_def instanceof_TypeError_def
          isAPICallError_def mk_error_def field_of_def status_of_def json_field_def)
  from C8_finish_marker_without_fragment [OF marker_sample b, THEN conjunct1,
         of "\<lambda>s. None" "''2026-01-01T00:00:00.000Z''" False None]
  show ?thesis using c by (simp only:)
qed

lemma finish_error_with_fragment:
  assumes "isStreamFinishError e" and "CHR ''{'' \<in> set (e_message e)"
  shows "status_of (fst (streamCatch parse now' fin se e)) = Some 500
       \<and> field_of (fst (streamCatch parse now' fin se e)) ''code'' = Some (Str ''STREAM_FINISH_ERROR'')
       \<and> field_of (fst (streamCatch parse now' fin se e)) ''recoverable'' = Some (Bool True)
       \<and> (parse (substring (e_message e) (indexOf (e_message e) (CHR ''{''))) = None \<longrightarrow>
            field_of (fst (streamCatch parse now' fin se e)) ''message'' = Some (Str (e_message e)))
       \<and> (\<forall>kvs. parse (substring (e_message e) (indexOf (e_message e) (CHR ''{''))) = Some (Obj kvs) \<longrightarrow>
            field_of (fst (streamCatch parse now' fin se e)) ''finishReason''
              = Some (js_or (case map_of kvs ''finishReason'' of None \<Rightarrow> Undefined | Some v \<Rightarrow> v)
                        (Str ''error''))
          \<and> field_of (fst (streamCatch parse now' fin se e)) ''usage''
              = Some (js_or (case map_of kvs ''usage'' of None \<Rightarrow> Undefined | Some v \<Rightarrow> v)
                        zero_usage2)
          \<and> field_of (fst (streamCatch parse now' fin se e)) ''timestamp''
              = Some (js_or (case map_of kvs ''timestamp'' of None \<Rightarrow> Undefined | Some v \<Rightarrow> v)
                        (Str now')))"
  using assms(1) indexOf_present [OF assms(2)]
  by (auto simp: streamCatch_def finishErrorResponse_def finishParseFallback_def Let_def
        status_of_def field_of_def json_field_def
        split: option.splits sum.splits prod.splits)

subsection \<open>Validation and authorization\<close>

lemma filter_absent: "tid \<notin> th_id ` set ts \<Longrightarrow> filter (\<lambda>t. th_id t = tid) ts = []"
  by (induction ts) auto

lemma filter_unique:
  "distinct (map th_id ts) \<Longrightarrow> t \<in> set ts \<Longrightarrow> filter (\<lambda>x. th_id x = th_id t) ts = [t]"
proof (induction ts)
  case Nil
  then show ?case by simp
next
  case (Cons a ts)
  show ?case
  proof (cases "a = t")
    case True
    with Cons.prems have "th_id t \<notin> th_id ` set ts" by auto
    from filter_absent [OF this] True show ?thesis by simp
  next
    case False
    with Cons.prems have "t \<in> set ts" "distinct (map th_id ts)" "th_id a \<noteq> th_id t"
      by auto
    with Cons.IH show ?thesis by simp
  qed
qed

lemma threads_handler_world [simp]: "chat_threads (handler_world w) = chat_threads w"
  by (simp add: handler_world_def)

lemma threadCheck_missing:
  assumes "tid \<noteq> []" and "tid \<notin> th_id ` set (chat_threads w)"
  shows "threadCheck E w usr (Some tid) = Some (Response_json [(''error'', Str ''Thread not found'')] 404)"
  using assms filter_absent [OF assms(2)]
  by (simp add: threadCheck_def select_thread_def)

lemma threadCheck_found:
  assumes "tid \<noteq> []" and "\<not> thread_query_fails E"
      and "distinct (map th_id (chat_threads w))"
      and "t \<in> set (chat_threads w)" and "th_id t = tid"
  shows "threadCheck E w usr (Some tid) =
           (if th_user_id t \<noteq> u_id usr then
              Some (Response_json
                      [(''error'', Str ''Unauthorized thread access''),
                       (''details'', Obj [(''threadUserId'', Str (th_user_id t)),
                                          (''currentUserId'', Str (u_id usr))])] 403)
            else None)"
  using assms(1,2,5) filter_unique [OF assms(3,4)]
  by (auto simp: threadCheck_def select_thread_def)

lemma POST_authenticated:
  assumes "getUser_user E = Some usr" and "getUser_error E = None" and "request_json E = Body b"
  shows "POST E w = handleBody E (handler_world w) usr b"
  using assms by (simp add: POST_def)

lemma POST_unauthenticated:
  assumes "getUser_user E = None \<or> getUser_error E \<noteq> None"
  shows "POST E w = (respond (unauthorized E), handler_world w)"
  using assms by (cases "getUser_user E") (auto simp: POST_def Let_def)

lemma handleBody_thread_refused:
  assumes "threadCheck E w usr (b_id b) = Some r"
  shows "handleBody E w usr b = (respond r, w)"
  using assms by (simp add: handleBody_def)

lemma handleBody_invalid_messages:
  assumes "threadCheck E w usr (b_id b) = None"
      and "b_messages b = NotAnArray \<or> b_messages b = MessageArray []"
  shows "handleBody E w usr b = (respond invalidMessages, w)"
  using assms by (auto simp: handleBody_def)

lemma status_respond_json:
  "200 \<le> st \<Longrightarrow> st \<le> 599 \<Longrightarrow>
     status_of (p_response (respond (Response_json obj st))) = Some st
   \<and> field_of (p_response (respond (Response_json obj st))) k = map_of obj k
   \<and> p_streamText (respond (Response_json obj st)) = None
   \<and> p_run (respond (Response_json obj st)) = None"
  by (simp add: respond_def Response_json_def status_of_def field_of_def json_field_def)

text \<open>
  C4. The checks of \<open>POST\<close>, in the order of the source, each one reached when the ones
  before it passed, and none of them with a model call:
  \<^item> no user, or an error from the session lookup: 401 with a non-empty \<open>error\<close>;
  \<^item> authenticated, a thread id given (a non-empty string) and no thread with that
    id: 404;
  \<^item> the thread exists (ids are unique, the lookup works) and its owner is not the
    caller: 403;
  \<^item> no thread id (absent, or the empty string, which \<open>if (threadId)\<close> skips) or the
    caller's own thread, and \<open>messages\<close> is not an array or is the empty array: 400.
  The body is one that \<open>request.json()\<close> delivered.
\<close>

theorem C4_validation_before_model_call:
  "(getUser_user E = None \<or> getUser_error E \<noteq> None \<longrightarrow>
      status_of (p_response (fst (POST E w))) = Some 401
      \<and> (\<exists>msg. field_of (p_response (fst (POST E w))) ''error'' = Some (Str msg) \<and> msg \<noteq> [])
      \<and> p_streamText (fst (POST E w)) = None)
   \<and> (getUser_user E = Some usr \<and> getUser_error E = None \<and> request_json E = Body b
        \<and> b_id b = Some tid \<and> tid \<noteq> [] \<and> tid \<notin> th_id ` set (chat_threads w) \<longrightarrow>
      status_of (p_response (fst (POST E w))) = Some 404
      \<and> field_of (p_response (fst (POST E w))) ''error'' = Some (Str ''Thread not found'')
      \<and> p_streamText (fst (POST E w)) = None)
   \<and> (getUser_user E = Some usr \<and> getUser_error E = None \<and> request_json E = Body b
        \<and> b_id b = Some tid \<and> tid \<noteq> [] \<and> \<not> thread_query_fails E
        \<and> distinct (map th_id (chat_threads w))
        \<and> t \<in> set (chat_threads w) \<and> th_id t = tid \<and> th_user_id t \<noteq> u_id usr \<longrightarrow>
      status_of (p_response (fst (POST E w))) = Some 403
      \<and> field_of (p_response (fst (POST E w))) ''error'' = Some (Str ''Unauthorized thread access'')
      \<and> p_streamText (fst (POST E w)) = None)
   \<and> (getUser_user E = Some usr \<and> getUser_error E = None \<and> request_json E = Body b
        \<and> (b_id b = None \<or> b_id b = Some []
             \<or> (b_id b = Some tid \<and> \<not> thread_query_fails E
                 \<and> distinct (map th_id (chat_threads w))
                 \<and> t \<in> set (chat_threads w) \<and> th_id t = tid \<and> th_user_id t = u_id usr))
        \<and> (b_messages b = NotAnArray \<or> b_messages b = MessageArray []) \<longrightarrow>
      status_of (p_response (fst (POST E w))) = Some 400
      \<and> field_of (p_response (fst (POST E w))) ''error'' = Some (Str ''Invalid messages array'')
      \<and> p_streamText (fst (POST E w)) = None)"
proof (intro conjI impI)
  assume a: "getUser_user E = None \<or> getUser_error E \<noteq> None"
  note p = POST_unauthenticated [OF a, of w]
  show "status_of (p_response (fst (POST E w))) = Some 401"
    by (simp add: p unauthorized_def status_respond_json)
  show "\<exists>msg. field_of (p_response (fst (POST E w))) ''error'' = Some (Str msg) \<and> msg \<noteq> []"
    by (simp add: p unauthorized_def status_respond_json auth_error_text_def split: option.splits)
  show "p_streamText (fst (POST E w)) = None"
    by (simp add: p)
next
  assume a: "getUser_user E = Some usr \<and> getUser_error E = None \<and> request_json E = Body b
        \<and> b_id b = Some tid \<and> tid \<noteq> [] \<and> tid \<notin> th_id ` set (chat_threads w)"
  then have p: "POST E w = handleBody E (handler_world w) usr b"
    by (simp add: POST_authenticated)
  from a have "threadCheck E (handler_world w) usr (b_id b) =
                 Some (Response_json [(''error'', Str ''Thread not found'')] 404)"
    by (simp add: threadCheck_missing)
  from handleBody_thread_refused [OF this] p
  have r: "fst (POST E w) = respond (Response_json [(''error'', Str ''Thread not found'')] 404)"
    by simp
  show "status_of (p_response (fst (POST E w))) = Some 404"
    by (simp add: r status_respond_json)
  show "field_of (p_response (fst (POST E w))) ''error'' = Some (Str ''Thread not found'')"
    by (simp add: r status_respond_json)
  show "p_streamText (fst (POST E w)) = None"
    by (simp add: r)
next
  assume a: "getUser_user E = Some usr \<and> getUser_error E = None \<and> request_json E = Body b
        \<and> b_id b = Some tid \<and> tid \<noteq> [] \<and> \<not> thread_query_fails E
        \<and> distinct (map th_id (chat_threads w))
        \<and> t \<in> set (chat_threads w) \<and> th_id t = tid \<and> th_user_id t \<noteq> u_id usr"
  then have p: "POST E w = handleBody E (handler_world w) usr b"
    by (simp add: POST_authenticated)
  from a have "threadCheck E (handler_world w) usr (Some tid) =
           (if th_user_id t \<noteq> u_id usr then
              Some (Response_json
                      [(''error'', Str ''Unauthorized thread access''),
                       (''details'', Obj [(''threadUserId'', Str (th_user_id t)),
                                          (''currentUserId'', Str (u_id usr))])] 403)
            else None)"
    by (intro threadCheck_found) simp_all
  with a have "threadCheck E (handler_world w) usr (b_id b) =
              Some (Response_json
                      [(''error'', Str ''Unauthorized thread access''),
                       (''details'', Obj [(''threadUserId'', Str (th_user_id t)),
                                          (''currentUserId'', Str (u_id usr))])] 403)"
    by simp
  from handleBody_thread_refused [OF this] p
  have r: "fst (POST E w) = respond (Response_json
                      [(''error'', Str ''Unauthorized thread access''),
                       (''details'', Obj [(''threadUserId'', Str (th_user_id t)),
                                          (''currentUserId'', Str (u_id usr))])] 403)"
    by simp
  show "status_of (p_response (fst (POST E w))) = Some 403"
    by (simp add: r status_respond_json)
  show "field_of (p_response (fst (POST E w))) ''error'' = Some (Str ''Unauthorized thread access'')"
    by (simp add: r status_respond_json)
  show "p_streamText (fst (POST E w)) = None"
    by (simp add: r)
next
  assume a: "getUser_user E = Some usr \<and> getUser_error E = None \<and> request_json E = Body b
        \<and> (b_id b = None \<or> b_id b = Some []
             \<or> (b_id b = Some tid \<and> \<not> thread_query_fails E
                 \<and> distinct (map th_id (chat_threads w))
                 \<and> t \<in> set (chat_threads w) \<and> th_id t = tid \<and> th_user_id t = u_id usr))
        \<and> (b_messages b = NotAnArray \<or> b_messages b = MessageArray [])"
  then have p: "POST E w = handleBody E (handler_world w) usr b"
    by (simp add: POST_authenticated)
  have tc: "threadCheck E (handler_world w) usr (b_id b) = None"
  proof (cases "b_id b = None \<or> b_id b = Some []")
    case True
    then show ?thesis by (auto simp: threadCheck_def)
  next
    case False
    with a have f: "b_id b = Some tid" "\<not> thread_query_fails E"
        "distinct (map th_id (chat_threads w))" "t \<in> set (chat_threads w)" "th_id t = tid"
        "th_user_id t = u_id usr" "tid \<noteq> []"
      by auto
    have "threadCheck E (handler_world w) usr (Some tid) =
           (if th_user_id t \<noteq> u_id usr then
              Some (Response_json
                      [(''error'', Str ''Unauthorized thread access''),
                       (''details'', Obj [(''threadUserId'', Str (th_user_id t)),
                                          (''currentUserId'', Str (u_id usr))])] 403)
            else None)"
      using f by (intro threadCheck_found) simp_all
    with f show ?thesis by simp
  qed
  from a have "b_messages b = NotAnArray \<or> b_messages b = MessageArray []" by simp
  from handleBody_invalid_messages [OF tc this] p
  have r: "fst (POST E w) = respond invalidMessages" by simp
  show "status_of (p_response (fst (POST E w))) = Some 400"
    by (simp add: r invalidMessages_def status_respond_json)
  show "field_of (p_response (fst (POST E w))) ''error'' = Some (Str ''Invalid messages array'')"
    by (simp add: r invalidMessages_def status_respond_json)
  show "p_streamText (fst (POST E w)) = None"
    by (simp add: r)
qed


theorem C4_validation_before_model_call_witness:
  "status_of (p_response (fst (POST
       (sample_env sample_student sample_body []\<lparr>getUser_user := None\<rparr>) empty_world)))
     = Some 401
   \<and> status_of (p_response (fst (POST
       (sample_env sample_student (sample_body\<lparr>b_id := Some ''t9''\<rparr>) []) empty_world)))
     = Some 404
   \<and> status_of (p_response (fst (POST
       (sample_env sample_student (sample_body\<lparr>b_id := Some ''t1''\<rparr>) [])
       (empty_world\<lparr>chat_threads := [\<lparr>th_id = ''t1'', th_user_id = ''user-2''\<rparr>]\<rparr>))))
     = Some 403
   \<and> status_of (p_response (fst (POST
       (sample_env sample_student (sample_body\<lparr>b_messages := MessageArray []\<rparr>) [])
       empty_world)))
     = Some 400"
proof -
  let ?t = "\<lparr>th_id = ''t1'', th_user_id = ''user-2''\<rparr>"
  let ?E1 = "sample_env sample_student sample_body []\<lparr>getUser_user := None\<rparr>"
  let ?b2 = "sample_body\<lparr>b_id := Some ''t9''\<rparr>"
  let ?b3 = "sample_body\<lparr>b_id := Some ''t1''\<rparr>"
  let ?w3 = "empty_world\<lparr>chat_threads := [?t]\<rparr>"
  let ?b4 = "sample_body\<lparr>b_messages := MessageArray []\<rparr>"
  have h1: "getUser_user ?E1 = None \<or> getUser_error ?E1 \<noteq> None"
    by simp
  have h2: "getUser_user (sample_env sample_student ?b2 []) = Some sample_student
        \<and> getUser_error (sample_env sample_student ?b2 []) = None
        \<and> request_json (sample_env sample_student ?b2 []) = Body ?b2
        \<and> b_id ?b2 = Some ''t9'' \<and> ''t9'' \<noteq> []
        \<and> ''t9'' \<notin> th_id ` set (chat_threads empty_world)"
    by (simp add: sample_env_def empty_world_def)
  have h3: "getUser_user (sample_env sample_student ?b3 []) = Some sample_student
        \<and> getUser_error (sample_env sample_student ?b3 []) = None
        \<and> request_json (sample_env sample_student ?b3 []) = Body ?b3
        \<and> b_id ?b3 = Some ''t1'' \<and> ''t1'' \<noteq> []
        \<and> \<not> thread_query_fails (sample_env sample_student ?b3 [])
        \<and> distinct (map th_id (chat_threads ?w3))
        \<and> ?t \<in> set (chat_threads ?w3) \<and> th_id ?t = ''t1''
        \<and> th_user_id ?t \<noteq> u_id sample_student"
    by (simp add: sample_env_def sample_student_def)
  have h4: "getUser_user (sample_env sample_student ?b4 []) = Some sample_student
        \<and> getUser_error (sample_env sample_student ?b4 []) = None
        \<and> request_json (sample_env sample_student ?b4 []) = Body ?b4
        \<and> (b_id ?b4 = None \<or> b_id ?b4 = Some []
             \<or> (b_id ?b4 = Some ''t1''
                 \<and> \<not> thread_query_fails (sample_env sample_student ?b4 [])
                 \<and> distinct (map th_id (chat_threads empty_world))
                 \<and> ?t \<in> set (chat_threads empty_world) \<and> th_id ?t = ''t1''
                 \<and> th_user_id ?t = u_id sample_student))
        \<and> (b_messages ?b4 = NotAnArray \<or> b_messages ?b4 = MessageArray [])"
    by (simp add: sample_env_def sample_body_def)
  from C4_validation_before_model_call [of ?E1 empty_world sample_student sample_body "''t''" ?t,
         THEN conjunct1, THEN mp, OF h1]
  have c1: "status_of (p_response (fst (POST ?E1 empty_world))) = Some 401"
    by (rule conjunct1)
  from C4_validation_before_model_call [of "sample_env sample_student ?b2 []" empty_world
         sample_student ?b2 "''t9''" ?t,
         THEN conjunct2, THEN conjunct1, THEN mp, OF h2]
  have c2: "status_of (p_response (fst (POST (sample_env sample_student ?b2 []) empty_world)))
              = Some 404"
    by (rule conjunct1)
  from C4_validation_before_model_call [of "sample_env sample_student ?b3 []" ?w3
         sample_student ?b3 "''t1''" ?t,
         THEN conjunct2, THEN conjunct2, THEN conjunct1, THEN mp, OF h3]
  have c3: "status_of (p_response (fst (POST (sample_env sample_student ?b3 []) ?w3))) = Some 403"
    by (rule conjunct1)
  from C4_validation_before_model_call [of "sample_env sample_student ?b4 []" empty_world
         sample_student ?b4 "''t1''" ?t,
         THEN conjunct2, THEN conjunct2, THEN conjunct2, THEN mp, OF h4]
  have c4: "status_of (p_response (fst (POST (sample_env sample_student ?b4 []) empty_world)))
              = Some 400"
    by (rule conjunct1)
  from c1 c2 c3 c4 show ?thesis by (intro conjI)
qed

subsection \<open>A request without a thread id\<close>

lemma find_in_set: "find P xs = Some x \<Longrightarrow> x \<in> set xs"
  by (induction xs) (auto split: if_splits)

lemma lastUserMessage_clean:
  assumes "\<forall>m\<in>set ms. \<exists>s. m_content m = Str s"
      and "lastUserMessage (map cleanMessage ms) = Some m"
  shows "\<exists>s. m_content m = Str s"
proof -
  from assms(2) have "m \<in> set (map cleanMessage ms)"
    unfolding lastUserMessage_def using find_in_set [of _ "rev (map cleanMessage ms)" m] by simp
  then obtain m0 where "m0 \<in> set ms" "m = cleanMessage m0" by auto
  with assms(1) show ?thesis by (auto simp: cleanMessage_def)
qed

lemma getSystemPrompt_returns:
  assumes "language = ''english'' \<or> language = ''hindi''"
      and "\<forall>m. lastUserMessage messages = Some m \<longrightarrow> (\<exists>s. m_content m = Str s)"
  shows "\<exists>p. getSystemPrompt K messages userRole language teachingMode = Inr p"
proof -
  from lastUserText_ok [OF assms(2)] obtain t where "lastUserText messages = Inr t" ..
  with assms(1) show ?thesis
    by (auto simp: getSystemPrompt_def detectSubject_def prompts_def)
qed

lemma selectSystem_returns:
  assumes "\<forall>m\<in>set ms. \<exists>s. m_content m = Str s"
      and "language = ''english'' \<or> language = ''hindi''"
  shows "\<exists>system. selectSystem K (map cleanMessage ms) userRole language teachingMode = Inr system"
proof (cases teachingMode)
  case True
  then show ?thesis by (simp add: selectSystem_def)
next
  case False
  have "\<forall>m. lastUserMessage (map cleanMessage ms) = Some m \<longrightarrow> (\<exists>s. m_content m = Str s)"
    using lastUserMessage_clean [OF assms(1)] by blast
  from getSystemPrompt_returns [OF assms(2) this] False show ?thesis
    by (simp add: selectSystem_def)
qed

lemma POST_streams:
  assumes "getUser_user E = Some usr" and "getUser_error E = None"
      and "request_json E = Body b" and "b_id b = None"
      and "b_messages b = MessageArray ms" and "ms \<noteq> []"
      and "selectSystem (PROMPTS E) (map cleanMessage ms) (u_role usr) (body_language b)
             (body_teachingMode b) = Inr system"
      and "streamText E (streamParams system (map cleanMessage ms) (body_teachingMode b)) = Inr run"
      and "toDataStreamResponse E (streamParams system (map cleanMessage ms) (body_teachingMode b))
             = SdkResponse st txt True"
  shows "POST E w =
           (\<lparr> p_response = Inr \<lparr> r_status = st, r_statusText = txt,
                                 r_headers = [(''Connection'', ''keep-alive''),
                                              (''Cache-Control'', ''no-cache''),
                                              (''Content-Type'', ''text/event-stream'')],
                                 r_body = StreamBody \<rparr>,
              p_streamText = Some (streamParams system (map cleanMessage ms) (body_teachingMode b)),
              p_aborted = False, p_run = Some run \<rparr>, handler_world w)"
  using assms
  by (simp add: POST_authenticated handleBody_def threadCheck_def startStream_def
        openStream_def Let_def)

lemma runSteps_no_tools:
  "\<forall>s\<in>set steps. \<not> calls_tools s \<Longrightarrow> runSteps policy uuid threadId steps w = Inr w"
  by (induction steps) (auto simp: calls_tools_def onStepFinish_def)

lemma onFinish_frame:
  assumes "onFinish stringify now' logger email u finishReason w = (r, w1)"
  shows "chat_messages w1 = chat_messages w \<and> tool_outputs w1 = tool_outputs w
       \<and> attempts w1 = attempts w"
  using assms
  by (cases u; cases logger)
     (auto simp: onFinish_def onFinish_try_def console_error_def Let_def split: if_splits)

lemma drain_result:
  "\<exists>w0 w1 ctl. runSteps (insert_policy E) (randomUUID E) threadId (run_steps run) w = Inr w0
      \<and> drain E threadId email run w = Inr (w1, ctl)
      \<and> chat_messages w1 = chat_messages w0 \<and> tool_outputs w1 = tool_outputs w0
      \<and> attempts w1 = attempts w0"
proof -
  obtain w0 where a: "runSteps (insert_policy E) (randomUUID E) threadId (run_steps run) w = Inr w0"
    using runSteps_returns by blast
  obtain w1 where b: "onFinish (JSON_stringify E) (now E) (logTokenUsage E) email (run_usage run)
                  (run_finishReason run) w0 = (Inr (), w1)"
    using onFinish_returns by blast
  have "\<not> terminated new_controller" by (simp add: new_controller_def)
  from pipeThrough_open [OF this, of "run_chunks run"] obtain ctl where
    c: "pipeThrough (run_chunks run) new_controller = Inr ctl"
    by blast
  from a b c onFinish_frame [OF b] show ?thesis by (simp add: drain_def)
qed

lemma frame_handler_world [simp]:
  "chat_messages (handler_world w) = chat_messages w"
  "tool_outputs (handler_world w) = tool_outputs w"
  "attempts (handler_world w) = attempts w"
  by (simp_all add: handler_world_def)

text \<open>
  C2, as amended. An authenticated request without a thread id, whose messages are a
  non-empty array of messages with string content and whose language is \<open>english\<close> or
  \<open>hindi\<close>, gets the streaming response when the SDK works (\<open>streamText\<close> returns and
  \<open>toDataStreamResponse\<close> answers 200 with a body): status 200, \<open>Content-Type:
  text/event-stream\<close>, and a run that ends without an error. Persistence does not depend
  on the thread id: one message insert is attempted for every step of the run that
  called tools. In a run where no step called tools nothing is inserted or attempted.
\<close>

theorem C2_stream_without_thread_id:
  assumes "getUser_user E = Some usr" and "getUser_error E = None"
      and "request_json E = Body b" and "b_id b = None"
      and "b_messages b = MessageArray ms" and "ms \<noteq> []"
      and "\<forall>m\<in>set ms. \<exists>s. m_content m = Str s"
      and "body_language b = ''english'' \<or> body_language b = ''hindi''"
      and "\<forall>p. \<exists>run. streamText E p = Inr run"
      and "\<forall>p. \<exists>txt. toDataStreamResponse E p = SdkResponse 200 txt True"
  shows "\<exists>res run w1 ctl. serve E w = (res, Inr (w1, ctl)) \<and> p_run res = Some run
           \<and> is_event_stream 200 (p_response res)
           \<and> length (filter is_message_insert (attempts w1)) =
               length (filter is_message_insert (attempts w))
               + length (filter calls_tools (run_steps run))
           \<and> (\<not> (\<exists>s\<in>set (run_steps run). calls_tools s) \<longrightarrow>
                chat_messages w1 = chat_messages w \<and> tool_outputs w1 = tool_outputs w
                \<and> attempts w1 = attempts w)"
proof -
  from selectSystem_returns [OF assms(7,8)] obtain system where
    sel: "selectSystem (PROMPTS E) (map cleanMessage ms) (u_role usr) (body_language b)
             (body_teachingMode b) = Inr system"
    by blast
  let ?p = "streamParams system (map cleanMessage ms) (body_teachingMode b)"
  from assms(9) obtain run where run: "streamText E ?p = Inr run" by blast
  from assms(10) obtain tx where resp: "toDataStreamResponse E ?p = SdkResponse 200 tx True"
    by blast
  note post = POST_streams [OF assms(1-6) sel run resp, of w]
  let ?res = "fst (POST E w)"
  have tid: "request_threadId E = None"
    using assms(3,4) by (simp add: request_threadId_def)
  have srv: "serve E w = (?res, drain E None (request_email E) run (handler_world w))"
    by (simp add: serve_def post tid)
  from drain_result [of E None run "handler_world w" "request_email E"]
  obtain w0 w1 ctl where
    rs: "runSteps (insert_policy E) (randomUUID E) None (run_steps run) (handler_world w) = Inr w0"
    and dr: "drain E None (request_email E) run (handler_world w) = Inr (w1, ctl)"
    and fr: "chat_messages w1 = chat_messages w0" "tool_outputs w1 = tool_outputs w0"
            "attempts w1 = attempts w0"
    by blast
  from runSteps_returns [of "insert_policy E" "randomUUID E" None "run_steps run" "handler_world w"] rs
  have n: "length (filter is_message_insert (attempts w0)) =
             length (filter is_message_insert (attempts w))
             + length (filter calls_tools (run_steps run))"
    by simp
  have quiet: "\<not> (\<exists>s\<in>set (run_steps run). calls_tools s) \<longrightarrow>
                chat_messages w1 = chat_messages w \<and> tool_outputs w1 = tool_outputs w
                \<and> attempts w1 = attempts w"
  proof
    assume "\<not> (\<exists>s\<in>set (run_steps run). calls_tools s)"
    then have "\<forall>s\<in>set (run_steps run). \<not> calls_tools s" by blast
    from runSteps_no_tools [OF this, of "insert_policy E" "randomUUID E" None "handler_world w"] rs
    have "w0 = handler_world w" by simp
    with fr show "chat_messages w1 = chat_messages w \<and> tool_outputs w1 = tool_outputs w
                \<and> attempts w1 = attempts w" by simp
  qed
  have ev: "is_event_stream 200 (p_response ?res)"
    by (simp add: post is_event_stream_def)
  have pr: "p_run ?res = Some run" by (simp add: post)
  from srv dr pr ev n fr(3) quiet show ?thesis by auto
qed


lemma sample_wellformed:
  "\<forall>m\<in>set [user_message (Str ''explain fractions'')]. \<exists>s. m_content m = Str s"
  by (simp add: user_message_def)

lemma sample_serve:
  "\<exists>system tx.
     serve (sample_env sample_student sample_body steps) empty_world =
       (\<lparr> p_response = Inr \<lparr> r_status = 200, r_statusText = tx,
                             r_headers = [(''Connection'', ''keep-alive''),
                                          (''Cache-Control'', ''no-cache''),
                                          (''Content-Type'', ''text/event-stream'')],
                             r_body = StreamBody \<rparr>,
          p_streamText = Some (streamParams system
             (map cleanMessage [user_message (Str ''explain fractions'')]) False),
          p_aborted = False, p_run = Some (sample_run steps) \<rparr>,
        drain (sample_env sample_student sample_body steps) None (Some ''s@example.org'')
          (sample_run steps) (handler_world empty_world))"
proof -
  let ?E = "sample_env sample_student sample_body steps"
  let ?ms = "[user_message (Str ''explain fractions'')]"
  have tm: "body_teachingMode sample_body = False"
    by (simp add: body_teachingMode_def sample_body_def)
  have lang: "body_language sample_body = ''english'' \<or> body_language sample_body = ''hindi''"
    by (simp add: body_language_def sample_body_def)
  from selectSystem_returns [OF sample_wellformed lang] obtain system where
    sel: "selectSystem (PROMPTS ?E) (map cleanMessage ?ms) (u_role sample_student)
            (body_language sample_body) (body_teachingMode sample_body) = Inr system"
    by blast
  have a: "getUser_user ?E = Some sample_student" "getUser_error ?E = None"
          "request_json ?E = Body sample_body" "b_id sample_body = None"
          "b_messages sample_body = MessageArray ?ms" "?ms \<noteq> []"
    by (simp_all add: sample_env_def sample_body_def)
  have r: "streamText ?E (streamParams system (map cleanMessage ?ms) (body_teachingMode sample_body))
             = Inr (sample_run steps)"
    by (simp add: sample_env_def)
  have d: "toDataStreamResponse ?E
             (streamParams system (map cleanMessage ?ms) (body_teachingMode sample_body))
             = SdkResponse 200 ''OK'' True"
    by (simp add: sample_env_def)
  note post = POST_streams [OF a sel r d, of empty_world]
  have tid: "request_threadId ?E = None"
    by (simp add: request_threadId_def sample_env_def sample_body_def)
  have em: "request_email ?E = Some ''s@example.org''"
    by (simp add: request_email_def sample_env_def sample_student_def)
  show ?thesis
    by (intro exI [of _ system] exI [of _ "''OK''"]) (simp add: serve_def post tid em tm)
qed

theorem C2_stream_without_thread_id_witness:
  "\<exists>res w1 ctl. serve (sample_env sample_student sample_body [text_step]) empty_world
                   = (res, Inr (w1, ctl))
       \<and> is_event_stream 200 (p_response res)
       \<and> chat_messages w1 = [] \<and> tool_outputs w1 = [] \<and> attempts w1 = []"
proof -
  let ?E = "sample_env sample_student sample_body [text_step]"
  let ?ms = "[user_message (Str ''explain fractions'')]"
  have a: "getUser_user ?E = Some sample_student" "getUser_error ?E = None"
          "request_json ?E = Body sample_body" "b_id sample_body = None"
          "b_messages sample_body = MessageArray ?ms" "?ms \<noteq> []"
    by (simp_all add: sample_env_def sample_body_def)
  have lang: "body_language sample_body = ''english'' \<or> body_language sample_body = ''hindi''"
    by (simp add: body_language_def sample_body_def)
  have s1: "\<forall>p. \<exists>run. streamText ?E p = Inr run"
    by (simp add: sample_env_def)
  have s2: "\<forall>p. \<exists>tx. toDataStreamResponse ?E p = SdkResponse 200 tx True"
    by (simp add: sample_env_def)
  from C2_stream_without_thread_id [OF a sample_wellformed lang s1 s2, of empty_world]
  obtain res run w1 ctl where
    srv: "serve ?E empty_world = (res, Inr (w1, ctl))" and pr: "p_run res = Some run"
    and ev: "is_event_stream 200 (p_response res)"
    and quiet: "\<not> (\<exists>s\<in>set (run_steps run). calls_tools s) \<longrightarrow>
                chat_messages w1 = chat_messages empty_world
                \<and> tool_outputs w1 = tool_outputs empty_world
                \<and> attempts w1 = attempts empty_world"
    by blast
  from sample_serve [of "[text_step]"] srv pr have "run = sample_run [text_step]"
    by auto
  then have "\<not> (\<exists>s\<in>set (run_steps run). calls_tools s)"
    by (simp add: sample_run_def calls_tools_def text_step_def)
  with quiet have "chat_messages w1 = [] \<and> tool_outputs w1 = [] \<and> attempts w1 = []"
    by (simp add: empty_world_def)
  with srv ev show ?thesis by blast
qed

text \<open>
  C2 as stated fails: the sample request has an authenticated user, no thread id and
  well-formed messages, and gets the 200 event stream; the model's step calls two tools,
  and at the end of the run \<open>chat_messages\<close> holds the step's assistant message (with no
  thread id) and \<open>tool_outputs\<close> holds the two tool rows.
\<close>

theorem C2_tool_step_persists_counterexample:
  "getUser_user (sample_env sample_student sample_body [sample_step]) = Some sample_student
   \<and> getUser_error (sample_env sample_student sample_body [sample_step]) = None
   \<and> request_threadId (sample_env sample_student sample_body [sample_step]) = None
   \<and> is_event_stream 200
        (p_response (fst (serve (sample_env sample_student sample_body [sample_step]) empty_world)))
   \<and> map_option chat_messages
        (served_world (sample_env sample_student sample_body [sample_step]) empty_world)
       = Some [\<lparr> mr_id = ''id-'', mr_thread_id = None, mr_role = ''assistant'',
                  mr_content = ''Here is a quiz.'' \<rparr>]
   \<and> map_option (\<lambda>w. map to_state (tool_outputs w))
        (served_world (sample_env sample_student sample_body [sample_step]) empty_world)
       = Some [''result'', ''pending'']"
proof -
  let ?E = "sample_env sample_student sample_body [sample_step]"
  let ?w = "handler_world empty_world"
  from sample_serve [of "[sample_step]"] obtain system tx where
    srv: "serve ?E empty_world =
       (\<lparr> p_response = Inr \<lparr> r_status = 200, r_statusText = tx,
                             r_headers = [(''Connection'', ''keep-alive''),
                                          (''Cache-Control'', ''no-cache''),
                                          (''Content-Type'', ''text/event-stream'')],
                             r_body = StreamBody \<rparr>,
          p_streamText = Some (streamParams system
             (map cleanMessage [user_message (Str ''explain fractions'')]) False),
          p_aborted = False, p_run = Some (sample_run [sample_step]) \<rparr>,
        drain ?E None (Some ''s@example.org'') (sample_run [sample_step]) ?w)"
    by blast
  have t: "st_toolCalls sample_step \<noteq> []" by (simp add: sample_step_def)
  have m: "message_insert_answer (insert_policy ?E) (randomUUID ?E) None sample_step ?w = Accepted"
    by (simp add: message_insert_answer_def sample_env_def)
  have o: "tool_insert_answer (insert_policy ?E) (randomUUID ?E) None sample_step ?w = Accepted"
    by (simp add: tool_insert_answer_def sample_env_def)
  from drain_result [of ?E None "sample_run [sample_step]" ?w "Some ''s@example.org''"]
  obtain w0 w1 ctl where
    rs: "runSteps (insert_policy ?E) (randomUUID ?E) None (run_steps (sample_run [sample_step])) ?w
           = Inr w0"
    and dr: "drain ?E None (Some ''s@example.org'') (sample_run [sample_step]) ?w = Inr (w1, ctl)"
    and fr: "chat_messages w1 = chat_messages w0" "tool_outputs w1 = tool_outputs w0"
    by blast
  have "runSteps (insert_policy ?E) (randomUUID ?E) None (run_steps (sample_run [sample_step])) ?w
           = Inr ((world_after_message (randomUUID ?E) None sample_step ?w)
                  \<lparr> attempts := attempts ?w @
                       [InsertMessage (step_message_row (randomUUID ?E) None sample_step ?w),
                        InsertToolOutputs (step_output_rows (randomUUID ?E) sample_step ?w)],
                    tool_outputs := tool_outputs ?w @
                       step_output_rows (randomUUID ?E) sample_step ?w \<rparr>)"
    by (simp add: sample_run_def onStepFinish_stored [OF t m o])
  with rs have "w0 = (world_after_message (randomUUID ?E) None sample_step ?w)
                  \<lparr> attempts := attempts ?w @
                       [InsertMessage (step_message_row (randomUUID ?E) None sample_step ?w),
                        InsertToolOutputs (step_output_rows (randomUUID ?E) sample_step ?w)],
                    tool_outputs := tool_outputs ?w @
                       step_output_rows (randomUUID ?E) sample_step ?w \<rparr>"
    by simp
  then have w0':
    "chat_messages w0 = chat_messages ?w @ [step_message_row (randomUUID ?E) None sample_step ?w]"
    "tool_outputs w0 = tool_outputs ?w @ step_output_rows (randomUUID ?E) sample_step ?w"
    by (simp_all add: world_after_message_def)
  have e: "chat_messages ?w = []" "tool_outputs ?w = []"
    by (simp_all add: empty_world_def)
  from w0' have w0: "chat_messages w0 = [step_message_row (randomUUID ?E) None sample_step ?w]"
           "tool_outputs w0 = step_output_rows (randomUUID ?E) sample_step ?w"
    by (simp_all only: e append_Nil)
  have row: "step_message_row (randomUUID ?E) None sample_step ?w =
               \<lparr> mr_id = ''id-'', mr_thread_id = None, mr_role = ''assistant'',
                 mr_content = ''Here is a quiz.'' \<rparr>"
    by (simp add: step_message_row_def sample_env_def sample_uuid_def handler_world_def
          empty_world_def sample_step_def)
  have st: "map to_state (step_output_rows (randomUUID ?E) sample_step ?w) = [''result'', ''pending'']"
    by (simp add: step_output_rows_def toolCallsWithResults_def sample_step_def output_row_def
          state_or_pending_def)
  have sw: "served_world ?E empty_world = Some w1"
    by (simp add: served_world_def srv dr)
  have ev: "is_event_stream 200 (p_response (fst (serve ?E empty_world)))"
    by (simp add: srv is_event_stream_def)
  have hd: "getUser_user ?E = Some sample_student \<and> getUser_error ?E = None
            \<and> request_threadId ?E = None"
    by (simp add: sample_env_def request_threadId_def sample_body_def)
  have cm: "map_option chat_messages (served_world ?E empty_world)
              = Some [\<lparr> mr_id = ''id-'', mr_thread_id = None, mr_role = ''assistant'',
                         mr_content = ''Here is a quiz.'' \<rparr>]"
    by (simp only: sw option.map fr w0 row)
  have ts: "map_option (\<lambda>w. map to_state (tool_outputs w)) (served_world ?E empty_world)
              = Some [''result'', ''pending'']"
    by (simp only: sw option.map fr w0 st)
  from hd ev cm ts show ?thesis by (intro conjI) blast+
qed

end
